theory Spec2Isabelle
  imports Complex_Main
begin

section \<open>Three-dimensional vectors and tensors\<close>

text \<open>
  Every array of the module is, per sample of the batch, a vector of three entries or a
  3 by 3 tensor (row major).  The embedding works on one sample; floating-point numbers
  are read as exact reals and complex numbers.  Where a denominator is zero, a quotient
  of numpy values is \<^verbatim>\<open>inf\<close> or \<^verbatim>\<open>nan\<close> and the embedding gives the value \<open>0\<close> that a
  quotient by zero has in HOL; the results below are meant for inputs with non-zero
  denominators.  A quotient of two Python numbers raises \<^verbatim>\<open>ZeroDivisionError\<close> instead;
  the quasistatic sphere polarizability is such a quotient and is modelled with the
  error.
\<close>

datatype 'a vec3 = Vec3 'a 'a 'a

datatype 'a mat3 = Mat3 'a 'a 'a  'a 'a 'a  'a 'a 'a

datatype error = UnboundLocalError | LinAlgError | ValueError | ZeroDivisionError

text \<open>\<^verbatim>\<open>np.identity(3)\<close> and \<^verbatim>\<open>np.zeros((3,3))\<close>.\<close>

definition identity3 :: "'a::field mat3" where
  "identity3 = Mat3 1 0 0  0 1 0  0 0 1"

definition zeros3 :: "'a::field mat3" where
  "zeros3 = Mat3 0 0 0  0 0 0  0 0 0"

text \<open>The matrix product \<^verbatim>\<open>A @ B\<close>.\<close>

fun matmul :: "'a::field mat3 \<Rightarrow> 'a mat3 \<Rightarrow> 'a mat3" where
  "matmul (Mat3 a11 a12 a13 a21 a22 a23 a31 a32 a33)
          (Mat3 b11 b12 b13 b21 b22 b23 b31 b32 b33) =
     Mat3 (a11 * b11 + a12 * b21 + a13 * b31) (a11 * b12 + a12 * b22 + a13 * b32)
          (a11 * b13 + a12 * b23 + a13 * b33)
          (a21 * b11 + a22 * b21 + a23 * b31) (a21 * b12 + a22 * b22 + a23 * b32)
          (a21 * b13 + a22 * b23 + a23 * b33)
          (a31 * b11 + a32 * b21 + a33 * b31) (a31 * b12 + a32 * b22 + a33 * b32)
          (a31 * b13 + a32 * b23 + a33 * b33)"

text \<open>The product of a tensor with a vector, \<^verbatim>\<open>np.einsum('...ij,...j->...i', A, v)\<close>
  (and \<^verbatim>\<open>A @ v\<close> for a one-dimensional \<^verbatim>\<open>v\<close>).\<close>

fun matvec :: "'a::field mat3 \<Rightarrow> 'a vec3 \<Rightarrow> 'a vec3" where
  "matvec (Mat3 a11 a12 a13 a21 a22 a23 a31 a32 a33) (Vec3 x y z) =
     Vec3 (a11 * x + a12 * y + a13 * z) (a21 * x + a22 * y + a23 * z)
          (a31 * x + a32 * y + a33 * z)"

text \<open>Entrywise sum, difference and the product with a scalar.\<close>

fun madd :: "'a::field mat3 \<Rightarrow> 'a mat3 \<Rightarrow> 'a mat3" where
  "madd (Mat3 a11 a12 a13 a21 a22 a23 a31 a32 a33)
        (Mat3 b11 b12 b13 b21 b22 b23 b31 b32 b33) =
     Mat3 (a11 + b11) (a12 + b12) (a13 + b13) (a21 + b21) (a22 + b22) (a23 + b23)
          (a31 + b31) (a32 + b32) (a33 + b33)"

fun msub :: "'a::field mat3 \<Rightarrow> 'a mat3 \<Rightarrow> 'a mat3" where
  "msub (Mat3 a11 a12 a13 a21 a22 a23 a31 a32 a33)
        (Mat3 b11 b12 b13 b21 b22 b23 b31 b32 b33) =
     Mat3 (a11 - b11) (a12 - b12) (a13 - b13) (a21 - b21) (a22 - b22) (a23 - b23)
          (a31 - b31) (a32 - b32) (a33 - b33)"

fun mscale :: "'a::field \<Rightarrow> 'a mat3 \<Rightarrow> 'a mat3" where
  "mscale s (Mat3 a11 a12 a13 a21 a22 a23 a31 a32 a33) =
     Mat3 (s * a11) (s * a12) (s * a13) (s * a21) (s * a22) (s * a23)
          (s * a31) (s * a32) (s * a33)"

fun vadd :: "'a::field vec3 \<Rightarrow> 'a vec3 \<Rightarrow> 'a vec3" where
  "vadd (Vec3 x y z) (Vec3 u v w) = Vec3 (x + u) (y + v) (z + w)"

fun vscale :: "'a::field \<Rightarrow> 'a vec3 \<Rightarrow> 'a vec3" where
  "vscale s (Vec3 x y z) = Vec3 (s * x) (s * y) (s * z)"

text \<open>A real array used together with complex ones is promoted entrywise.\<close>

definition cmat :: "real mat3 \<Rightarrow> complex mat3" where
  "cmat = map_mat3 complex_of_real"

definition cvec :: "real vec3 \<Rightarrow> complex vec3" where
  "cvec = map_vec3 complex_of_real"

section \<open>RotationFrame: \<^verbatim>\<open>rotation_by\<close>\<close>

text \<open>
  \<^verbatim>\<open>rotation_by(by_angle, rot_axis='z')\<close> for a scalar angle: a zero matrix whose entries
  are set according to the axis name; any other name leaves the zeros.
\<close>

definition rotation_by :: "real \<Rightarrow> string \<Rightarrow> real mat3" where
  "rotation_by by_angle rot_axis =
     (let cosines = cos by_angle; sines = sin by_angle in
      if rot_axis = ''x'' then
        Mat3 1 0 0
             0 cosines (- sines)
             0 sines cosines
      else if rot_axis = ''y'' then
        Mat3 cosines 0 sines
             0 1 0
             (- sines) 0 cosines
      else if rot_axis = ''z'' then
        Mat3 cosines (- sines) 0
             sines cosines 0
             0 0 1
      else zeros3)"

text \<open>For a one-dimensional array of angles the result has one rotation per angle.\<close>

definition rotation_by_array :: "real list \<Rightarrow> string \<Rightarrow> real mat3 list" where
  "rotation_by_array by_angle rot_axis = map (\<lambda>a. rotation_by a rot_axis) by_angle"

text \<open>The batched product \<^verbatim>\<open>A @ B\<close> of two stacks of the same length.\<close>

definition matmul_batch :: "'a::field mat3 list \<Rightarrow> 'a mat3 list \<Rightarrow> 'a mat3 list" where
  "matmul_batch As Bs = map2 matmul As Bs"

section \<open>Further array operations\<close>

fun vsub :: "'a::field vec3 \<Rightarrow> 'a vec3 \<Rightarrow> 'a vec3" where
  "vsub (Vec3 x y z) (Vec3 u v w) = Vec3 (x - u) (y - v) (z - w)"

text \<open>Division of a vector by a scalar, \<^verbatim>\<open>d_col/d\<close>.\<close>

fun vdiv :: "'a::field vec3 \<Rightarrow> 'a \<Rightarrow> 'a vec3" where
  "vdiv (Vec3 x y z) s = Vec3 (x / s) (y / s) (z / s)"

text \<open>The entrywise product \<^verbatim>\<open>u * v\<close>, \<^verbatim>\<open>np.conj\<close>, \<^verbatim>\<open>np.imag\<close> and the sum over
  the Cartesian axis.\<close>

fun vmul :: "'a::field vec3 \<Rightarrow> 'a vec3 \<Rightarrow> 'a vec3" where
  "vmul (Vec3 x y z) (Vec3 u v w) = Vec3 (x * u) (y * v) (z * w)"

fun vconj :: "complex vec3 \<Rightarrow> complex vec3" where
  "vconj (Vec3 x y z) = Vec3 (cnj x) (cnj y) (cnj z)"

fun vimag :: "complex vec3 \<Rightarrow> real vec3" where
  "vimag (Vec3 x y z) = Vec3 (Im x) (Im y) (Im z)"

fun vsum :: "real vec3 \<Rightarrow> real" where
  "vsum (Vec3 x y z) = x + y + z"

text \<open>\<^verbatim>\<open>np.einsum('...i,...j->...ij', u, v)\<close>.\<close>

fun outer :: "'a::field vec3 \<Rightarrow> 'a vec3 \<Rightarrow> 'a mat3" where
  "outer (Vec3 x y z) (Vec3 u v w) =
     Mat3 (x * u) (x * v) (x * w)  (y * u) (y * v) (y * w)  (z * u) (z * v) (z * w)"

text \<open>\<^verbatim>\<open>np.linalg.norm(v, axis=-1)\<close> of a real and of a complex vector.\<close>

fun norm_real :: "real vec3 \<Rightarrow> real" where
  "norm_real (Vec3 x y z) = sqrt (\<bar>x\<bar>\<^sup>2 + \<bar>y\<bar>\<^sup>2 + \<bar>z\<bar>\<^sup>2)"

fun norm_complex :: "complex vec3 \<Rightarrow> real" where
  "norm_complex (Vec3 x y z) = sqrt ((cmod x)\<^sup>2 + (cmod y)\<^sup>2 + (cmod z)\<^sup>2)"

text \<open>
  \<^verbatim>\<open>np.linalg.inv\<close> of one 3 by 3 matrix: the inverse (written with the adjugate), and
  \<^verbatim>\<open>LinAlgError\<close> for a singular matrix.
\<close>

fun det3 :: "'a::field mat3 \<Rightarrow> 'a" where
  "det3 (Mat3 a b c  d e f  g h i) =
     a * (e * i - f * h) - b * (d * i - f * g) + c * (d * h - e * g)"

fun adjugate :: "'a::field mat3 \<Rightarrow> 'a mat3" where
  "adjugate (Mat3 a b c  d e f  g h i) =
     Mat3 (e * i - f * h) (c * h - b * i) (b * f - c * e)
          (f * g - d * i) (a * i - c * g) (c * d - a * f)
          (d * h - e * g) (b * g - a * h) (a * e - b * d)"

definition linalg_inv :: "'a::field mat3 \<Rightarrow> error + 'a mat3" where
  "linalg_inv A = (if det3 A = 0 then Inl LinAlgError else Inr (mscale (1 / det3 A) (adjugate A)))"

text \<open>Sequencing of computations that may raise.\<close>

definition bind_err :: "error + 'a \<Rightarrow> ('a \<Rightarrow> error + 'b) \<Rightarrow> error + 'b" where
  "bind_err m f = (case m of Inl e \<Rightarrow> Inl e | Inr x \<Rightarrow> f x)"

text \<open>\<^verbatim>\<open>np.linspace(start, stop, num)\<close> and \<^verbatim>\<open>np.trapz(y, x)\<close> on one-dimensional
  arrays.\<close>

definition linspace :: "real \<Rightarrow> real \<Rightarrow> nat \<Rightarrow> real list" where
  "linspace start stop num =
     map (\<lambda>i. start + real i * ((stop - start) / real (num - 1))) [0..<num]"

fun trapz :: "real list \<Rightarrow> real list \<Rightarrow> real" where
  "trapz (y1 # y2 # ys) (x1 # x2 # xs) =
     (x2 - x1) * (y2 + y1) / 2 + trapz (y2 # ys) (x2 # xs)"
| "trapz _ _ = 0"

section \<open>The physical constants\<close>

text \<open>
  The module reads \<^verbatim>\<open>e\<close>, \<^verbatim>\<open>c\<close>, \<^verbatim>\<open>hbar\<close>, \<^verbatim>\<open>nm\<close> and \<^verbatim>\<open>nA\<close> from a parameter
  file when it is loaded.  The file is not part of the sources, so the constants are a
  parameter of every function that reads them.
\<close>

record physical_constants =
  pc_e :: real
  pc_c :: real
  pc_hbar :: real
  pc_nm :: real
  pc_nA :: real

section \<open>PolarizabilityModels\<close>

subsection \<open>\<^verbatim>\<open>sparse_ellipsoid_polarizability\<close>\<close>

text \<open>The nested function \<^verbatim>\<open>L_i(a, b, c)\<close>: the quadrature grid \<^verbatim>\<open>q\<close>, the integrand and
  its trapezoidal integral.\<close>

definition ellipsoid_q :: "physical_constants \<Rightarrow> real list" where
  "ellipsoid_q K = map (\<lambda>x. x * (pc_nm K)\<^sup>2) (linspace 0 10000 100000)"

definition ellipsoid_integrand :: "real \<Rightarrow> real \<Rightarrow> real \<Rightarrow> real \<Rightarrow> real" where
  "ellipsoid_integrand a b c q =
     (let fq = sqrt ((a\<^sup>2 + q) * (b\<^sup>2 + q) * (c\<^sup>2 + q))
      in 1 / ((a\<^sup>2 + q) * fq))"

definition ellipsoid_L_i :: "physical_constants \<Rightarrow> real \<Rightarrow> real \<Rightarrow> real \<Rightarrow> real" where
  "ellipsoid_L_i K a b c =
     (let q = ellipsoid_q K;
          integrand = map (ellipsoid_integrand a b c) q;
          integral = trapz integrand q;
          L_val = (a * b * c / 2) * integral
      in L_val)"

definition ellipsoid_alpha_ii ::
  "physical_constants \<Rightarrow> complex \<Rightarrow> real \<Rightarrow> real \<Rightarrow> real \<Rightarrow> real \<Rightarrow> complex" where
  "ellipsoid_alpha_ii K eps eps_b a b c =
     of_real (a * b * c) * (eps - of_real eps_b) /
       (3 * of_real eps_b + 3 * of_real (ellipsoid_L_i K a b c) * (eps - of_real eps_b))"

definition sparse_ellipsoid_polarizability ::
  "physical_constants \<Rightarrow> complex \<Rightarrow> real \<Rightarrow> real \<Rightarrow> real \<Rightarrow> real \<Rightarrow> complex mat3" where
  "sparse_ellipsoid_polarizability K eps eps_b a_x a_y a_z =
     (let alpha_1 = ellipsoid_alpha_ii K eps eps_b a_x a_y a_z;
          alpha_2 = ellipsoid_alpha_ii K eps eps_b a_y a_z a_x;
          alpha_3 = ellipsoid_alpha_ii K eps eps_b a_z a_x a_y
      in Mat3 alpha_1 0 0
              0 alpha_2 0
              0 0 alpha_3)"

subsection \<open>\<^verbatim>\<open>sparse_ret_prolate_spheroid_polarizability\<close>\<close>

text \<open>
  The nested functions assign \<^verbatim>\<open>L\<close> and \<^verbatim>\<open>D\<close> in the branches \<^verbatim>\<open>a_x > a_yz\<close> and
  \<^verbatim>\<open>a_x < a_yz\<close> only; returning a local variable that was never assigned raises
  \<^verbatim>\<open>UnboundLocalError\<close>.
\<close>

definition ecc :: "real \<Rightarrow> real \<Rightarrow> real" where
  "ecc a_x a_yz = sqrt (\<bar>a_x\<^sup>2 - a_yz\<^sup>2\<bar> / (max a_x a_yz)\<^sup>2)"

definition L_x :: "real \<Rightarrow> real \<Rightarrow> error + real" where
  "L_x a_x a_yz =
     (let e = ecc a_x a_yz in
      if a_x > a_yz then Inr ((1 - e\<^sup>2) / e ^ 3 * (- e + artanh e))
      else if a_x < a_yz then Inr ((1 / e\<^sup>2) * (1 - (sqrt (1 - e\<^sup>2) / e) * arcsin e))
      else Inl UnboundLocalError)"

definition L_yz :: "real \<Rightarrow> real \<Rightarrow> error + real" where
  "L_yz a_x a_yz = bind_err (L_x a_x a_yz) (\<lambda>L. Inr ((1 - L) / 2))"

definition spheroid_L_i :: "nat \<Rightarrow> real \<Rightarrow> real \<Rightarrow> error + real" where
  "spheroid_L_i i a_x a_yz =
     (if i = 1 then L_x a_x a_yz
      else if i = 2 \<or> i = 3 then L_yz a_x a_yz
      else Inl UnboundLocalError)"

definition spheroid_alphaR_ii ::
  "complex \<Rightarrow> real \<Rightarrow> nat \<Rightarrow> real \<Rightarrow> real \<Rightarrow> error + complex" where
  "spheroid_alphaR_ii eps eps_b i a_x a_yz =
     bind_err (spheroid_L_i i a_x a_yz) (\<lambda>L.
       Inr (of_real ((a_x * a_yz\<^sup>2) / 3) * (eps - of_real eps_b) /
              (of_real eps_b + of_real L * (eps - of_real eps_b))))"

definition D_x :: "real \<Rightarrow> real \<Rightarrow> error + real" where
  "D_x a_x a_yz =
     (let e = ecc a_x a_yz in
      if a_x > a_yz then
        bind_err (spheroid_L_i 1 a_x a_yz) (\<lambda>L.
          Inr (3 / 4 * (((1 + e\<^sup>2) / (1 - e\<^sup>2)) * L + 1)))
      else if a_x < a_yz then
        bind_err (spheroid_L_i 1 a_x a_yz) (\<lambda>L.
          Inr (3 / 4 * ((1 - 2 * e\<^sup>2) * L + 1)))
      else Inl UnboundLocalError)"

definition D_yz :: "real \<Rightarrow> real \<Rightarrow> error + real" where
  "D_yz a_x a_yz =
     (let e = ecc a_x a_yz in
      if a_x > a_yz then
        bind_err (D_x a_x a_yz) (\<lambda>Dx.
          Inr ((a_yz / (2 * a_x)) * (3 / e * artanh e - Dx)))
      else if a_x < a_yz then
        bind_err (D_x a_x a_yz) (\<lambda>Dx.
          Inr ((a_yz / (2 * a_x)) * (3 * sqrt (1 - e\<^sup>2) / e * arcsin e - Dx)))
      else Inl UnboundLocalError)"

definition spheroid_alphaMW_ii ::
  "physical_constants \<Rightarrow> complex \<Rightarrow> real \<Rightarrow> real \<Rightarrow> nat \<Rightarrow> real \<Rightarrow> real \<Rightarrow> error + complex"
  where
  "spheroid_alphaMW_ii K eps eps_b w i a_x a_yz =
     bind_err (spheroid_alphaR_ii eps eps_b i a_x a_yz) (\<lambda>alphaR.
       let k = w * sqrt eps_b / pc_c K in
       bind_err
         (if i = 1 then bind_err (D_x a_x a_yz) (\<lambda>D. Inr (a_x, D))
          else if i = 2 \<or> i = 3 then bind_err (D_yz a_x a_yz) (\<lambda>D. Inr (a_yz, D))
          else Inl UnboundLocalError)
         (\<lambda>(l_E, D).
            Inr (alphaR /
                  (1 - of_real (k\<^sup>2 / l_E) * of_real D * alphaR
                     - \<i> * of_real ((2 * k ^ 3) / 3) * alphaR))))"

text \<open>
  The body: \<^verbatim>\<open>alpha_11\<close>, \<^verbatim>\<open>alpha_22\<close> and \<^verbatim>\<open>alpha_33\<close> are assigned together or
  not at all (\<open>None\<close>: unassigned), and \<^verbatim>\<open>alpha_ij\<close> is assigned by the branch of
  \<^verbatim>\<open>isolate_mode\<close> that applies, if any.
\<close>

definition read_local :: "'a option \<Rightarrow> error + 'a" where
  "read_local v = (case v of None \<Rightarrow> Inl UnboundLocalError | Some x \<Rightarrow> Inr x)"

definition sparse_ret_prolate_spheroid_polarizability ::
  "physical_constants \<Rightarrow> complex \<Rightarrow> real \<Rightarrow> real \<Rightarrow> real \<Rightarrow> real \<Rightarrow> string option
     \<Rightarrow> error + complex mat3" where
  "sparse_ret_prolate_spheroid_polarizability K eps eps_b a_x a_yz w isolate_mode =
     (let alphaMW_ii = (\<lambda>i. spheroid_alphaMW_ii K eps eps_b w i a_x a_yz) in
      bind_err
        (if a_x > a_yz then
           bind_err (alphaMW_ii 1) (\<lambda>alpha_11.
           bind_err (alphaMW_ii 2) (\<lambda>alpha_22.
           bind_err (alphaMW_ii 3) (\<lambda>alpha_33. Inr (Some (alpha_11, alpha_22, alpha_33)))))
         else if a_x < a_yz then
           bind_err (alphaMW_ii 2) (\<lambda>alpha_11.
           bind_err (alphaMW_ii 2) (\<lambda>alpha_22.
           bind_err (alphaMW_ii 1) (\<lambda>alpha_33. Inr (Some (alpha_11, alpha_22, alpha_33)))))
         else Inr None)
        (\<lambda>alphas.
           if isolate_mode = None then
             bind_err (read_local alphas) (\<lambda>(alpha_11, alpha_22, alpha_33).
               Inr (Mat3 alpha_11 0 0
                         0 alpha_22 0
                         0 0 alpha_33))
           else if isolate_mode = Some ''long'' then
             (if a_x > a_yz then
                bind_err (read_local alphas) (\<lambda>(alpha_11, alpha_22, alpha_33).
                  Inr (Mat3 alpha_11 0 0
                            0 0 0
                            0 0 0))
              else if a_x < a_yz then
                bind_err (read_local alphas) (\<lambda>(alpha_11, alpha_22, alpha_33).
                  Inr (Mat3 alpha_11 0 0
                            0 alpha_22 0
                            0 0 0))
              else Inl UnboundLocalError)
           else if isolate_mode = Some ''short'' \<or> isolate_mode = Some ''trans'' then
             (if a_x > a_yz then
                bind_err (read_local alphas) (\<lambda>(alpha_11, alpha_22, alpha_33).
                  Inr (Mat3 0 0 0
                            0 alpha_22 0
                            0 0 alpha_33))
              else if a_x < a_yz then
                bind_err (read_local alphas) (\<lambda>(alpha_11, alpha_22, alpha_33).
                  Inr (Mat3 0 0 0
                            0 0 0
                            0 0 alpha_33))
              else Inl UnboundLocalError)
           else Inl UnboundLocalError))"

subsection \<open>\<^verbatim>\<open>sparse_ret_sphere_polarizability\<close>\<close>

text \<open>\<^verbatim>\<open>distribute_sphere_alpha_components_into_tensor\<close> for scalar components.\<close>

definition distribute_sphere_alpha_components_into_tensor ::
  "complex \<Rightarrow> complex \<Rightarrow> complex \<Rightarrow> string option \<Rightarrow> error + complex mat3" where
  "distribute_sphere_alpha_components_into_tensor alpha_11 alpha_22 alpha_33 isolate_mode =
     (if isolate_mode = None then
        Inr (madd (madd (mscale alpha_11 (Mat3 1 0 0  0 0 0  0 0 0))
                        (mscale alpha_22 (Mat3 0 0 0  0 1 0  0 0 0)))
                  (mscale alpha_33 (Mat3 0 0 0  0 0 0  0 0 1)))
      else if isolate_mode = Some ''long'' then
        Inr (mscale alpha_11 (Mat3 1 0 0  0 0 0  0 0 0))
      else if isolate_mode = Some ''short'' \<or> isolate_mode = Some ''trans'' then
        Inr (madd (mscale alpha_22 (Mat3 0 0 0  0 1 0  0 0 0))
                  (mscale alpha_33 (Mat3 0 0 0  0 0 0  0 0 1)))
      else Inl UnboundLocalError)"

text \<open>
  The nested function \<^verbatim>\<open>alphaR_ii\<close> divides Python numbers: where the denominator
  \<^verbatim>\<open>eps_b + (1/3)*(eps-eps_b)\<close> is zero the division raises \<^verbatim>\<open>ZeroDivisionError\<close>.
\<close>

definition sphere_alphaR_ii :: "complex \<Rightarrow> real \<Rightarrow> nat \<Rightarrow> real \<Rightarrow> error + complex" where
  "sphere_alphaR_ii eps eps_b i a =
     (if of_real eps_b + (1 / 3) * (eps - of_real eps_b) = 0 then Inl ZeroDivisionError
      else Inr (of_real ((a ^ 3) / 3) * (eps - of_real eps_b) /
                  (of_real eps_b + (1 / 3) * (eps - of_real eps_b))))"

text \<open>
  In \<^verbatim>\<open>alphaMW_ii\<close> the wavenumber \<^verbatim>\<open>k\<close> comes from \<^verbatim>\<open>np.sqrt\<close> and is a numpy value, and
  so is every quotient that involves it: those do not raise.
\<close>

definition sphere_alphaMW_ii ::
  "physical_constants \<Rightarrow> complex \<Rightarrow> real \<Rightarrow> real \<Rightarrow> nat \<Rightarrow> real \<Rightarrow> error + complex" where
  "sphere_alphaMW_ii K eps eps_b w i a =
     bind_err (sphere_alphaR_ii eps eps_b i a) (\<lambda>alphaR.
       let k = w * sqrt eps_b / pc_c K
       in Inr (alphaR /
                 (1 - (of_real (k\<^sup>2 / a) * alphaR)
                    - (\<i> * of_real ((2 * k ^ 3) / 3) * alphaR))))"

definition sparse_ret_sphere_polarizability ::
  "physical_constants \<Rightarrow> complex \<Rightarrow> real \<Rightarrow> real \<Rightarrow> real \<Rightarrow> string option
     \<Rightarrow> error + complex mat3" where
  "sparse_ret_sphere_polarizability K eps eps_b a w isolate_mode =
     bind_err (sphere_alphaMW_ii K eps eps_b w 1 a) (\<lambda>alpha_11.
     bind_err (sphere_alphaMW_ii K eps eps_b w 2 a) (\<lambda>alpha_22.
     bind_err (sphere_alphaMW_ii K eps eps_b w 3 a) (\<lambda>alpha_33.
       distribute_sphere_alpha_components_into_tensor alpha_11 alpha_22 alpha_33
         isolate_mode)))"

section \<open>GreenTensor: \<^verbatim>\<open>vec_mag\<close> and \<^verbatim>\<open>G\<close>\<close>

definition vec_mag :: "real vec3 \<Rightarrow> real" where
  "vec_mag row_vecs = norm_real row_vecs"

definition G :: "physical_constants \<Rightarrow> real \<Rightarrow> real vec3 \<Rightarrow> real \<Rightarrow> complex mat3" where
  "G K drive_hbar_w d_col n_b =
     (let d = vec_mag d_col;
          n_hat = vdiv d_col d;
          w = drive_hbar_w / pc_hbar K;
          k = w * n_b / pc_c K;
          dyad = outer n_hat n_hat;
          complex_phase_factor = exp (\<i> * of_real k * of_real d);
          g_dip_dip =
            mscale complex_phase_factor
              (msub
                 (mscale (1 / of_real d ^ 3 - \<i> * of_real k / of_real d ^ 2)
                    (cmat (msub (mscale 3 dyad) identity3)))
                 (mscale (of_real (k\<^sup>2 / d)) (cmat (msub dyad identity3))))
      in g_dip_dip)"

section \<open>CoupledDipoleSolver\<close>

text \<open>
  An angle argument is a Python float (\<open>Scalar\<close>, an in-plane angle) or, in
  \<^verbatim>\<open>rotate_molecule\<close>, a two-dimensional array with the one row \<^verbatim>\<open>[[theta, phi]]\<close>
  (\<open>Polar\<close>).  The test \<^verbatim>\<open>E_d_angle == None\<close> is true for \<^verbatim>\<open>None\<close>, false for a
  float, and for an array it is an array of two truth values, whose use as the
  condition of \<^verbatim>\<open>if\<close> raises \<^verbatim>\<open>ValueError\<close>.
\<close>

datatype angle = Scalar real | Polar real real

definition E_d_angle_or_default :: "angle option \<Rightarrow> angle \<Rightarrow> error + angle" where
  "E_d_angle_or_default E_d_angle mol_angle =
     (case E_d_angle of
        None \<Rightarrow> Inr mol_angle
      | Some (Scalar a) \<Rightarrow> Inr (Scalar a)
      | Some (Polar t p) \<Rightarrow> Inl ValueError)"

definition rotate_molecule ::
  "angle \<Rightarrow> complex mat3 \<Rightarrow> angle option \<Rightarrow> real \<Rightarrow> error + (complex mat3 \<times> complex vec3)"
  where
  "rotate_molecule mol_angle alpha0_diag E_d_angle drive_amp =
     bind_err (E_d_angle_or_default E_d_angle mol_angle) (\<lambda>E_d_angle.
       let E_drive =
             (case E_d_angle of
                Polar E_d_theta E_d_phi \<Rightarrow>
                  matvec (rotation_by E_d_phi ''z'')
                    (matvec (rotation_by E_d_theta ''y'') (vscale drive_amp (Vec3 0 0 1)))
              | Scalar E_d_phi \<Rightarrow>
                  matvec (rotation_by E_d_phi ''z'') (vscale drive_amp (Vec3 1 0 0)));
           alpha_0 =
             (case mol_angle of
                Scalar phi_0 \<Rightarrow>
                  matmul (matmul (cmat (rotation_by (- phi_0) ''z'')) alpha0_diag)
                    (cmat (rotation_by phi_0 ''z''))
              | Polar theta_0 phi_0 \<Rightarrow>
                  let alpha_0_p0 =
                        matmul (matmul (cmat (rotation_by (pi / 2) ''y'')) alpha0_diag)
                          (cmat (rotation_by (- pi / 2) ''y''));
                      alpha_0_p0 =
                        matmul (matmul (cmat (rotation_by (- theta_0) ''y'')) alpha_0_p0)
                          (cmat (rotation_by theta_0 ''y''))
                  in matmul (matmul (cmat (rotation_by (- phi_0) ''z'')) alpha_0_p0)
                       (cmat (rotation_by phi_0 ''z'')))
       in Inr (alpha_0, cvec E_drive))"

text \<open>\<^verbatim>\<open>uncoupled_p0\<close>; the polarizability is part of the result when
  \<^verbatim>\<open>return_polarizability_tensor\<close> is set.\<close>

definition uncoupled_p0 ::
  "angle \<Rightarrow> angle option \<Rightarrow> complex mat3 \<Rightarrow> real \<Rightarrow> bool
     \<Rightarrow> error + (complex vec3 \<times> complex mat3 option)" where
  "uncoupled_p0 mol_angle E_d_angle alpha_0_p0 drive_amp return_polarizability_tensor =
     bind_err (rotate_molecule mol_angle alpha_0_p0 E_d_angle drive_amp)
       (\<lambda>(alpha_0, E_drive).
          let p0_unc = matvec alpha_0 E_drive in
          if return_polarizability_tensor then Inr (p0_unc, Some alpha_0)
          else Inr (p0_unc, None))"

definition dipole_mags_gened ::
  "physical_constants \<Rightarrow> angle \<Rightarrow> real \<Rightarrow> real vec3 \<Rightarrow> angle option \<Rightarrow> real
     \<Rightarrow> complex mat3 \<Rightarrow> complex mat3 \<Rightarrow> real \<Rightarrow> real
     \<Rightarrow> error + (complex vec3 \<times> complex vec3)" where
  "dipole_mags_gened K mol_angle plas_angle d_col E_d_angle drive_hbar_w
       alpha0_diag alpha1_diag n_b drive_amp =
     (let phi_1 = plas_angle in
      bind_err (rotate_molecule mol_angle alpha0_diag E_d_angle drive_amp)
        (\<lambda>(alpha_0, E_drive).
           let alpha_1_p1 = alpha1_diag;
               alpha_1 = matmul (matmul (cmat (rotation_by (- phi_1) ''z'')) alpha_1_p1)
                           (cmat (rotation_by phi_1 ''z''));
               G_d = G K drive_hbar_w d_col n_b
           in bind_err
                (linalg_inv (msub identity3 (matmul (matmul (matmul alpha_0 G_d) alpha_1) G_d)))
                (\<lambda>geometric_coupling_01.
                   let p0 = matvec (matmul geometric_coupling_01 alpha_0) E_drive;
                       p1 = matvec (matmul alpha_1 G_d) p0
                   in Inr (p0, p1))))"

text \<open>\<^verbatim>\<open>plas_dip_driven_by_mol\<close> for a one-dimensional \<^verbatim>\<open>mol_dipole_mag\<close> with one
  entry.  The inverse is computed (and may raise) although the result does not use it.\<close>

definition plas_dip_driven_by_mol ::
  "physical_constants \<Rightarrow> real \<Rightarrow> real \<Rightarrow> real vec3 \<Rightarrow> complex \<Rightarrow> real option \<Rightarrow> real
     \<Rightarrow> complex mat3 \<Rightarrow> real \<Rightarrow> real \<Rightarrow> error + (complex vec3 \<times> complex vec3)" where
  "plas_dip_driven_by_mol K mol_angle plas_angle d_col mol_dipole_mag E_d_angle drive_hbar_w
       alpha1_diag n_b drive_amp =
     (let phi_0 = mol_angle;
          phi_1 = plas_angle;
          E_d_angle = (case E_d_angle of None \<Rightarrow> mol_angle | Some a \<Rightarrow> a);
          E_drive = vscale drive_amp (matvec (rotation_by E_d_angle ''z'') (Vec3 1 0 0));
          alpha0_diag = Mat3 (mol_dipole_mag / of_real drive_amp) 0 0  0 0 0  0 0 0;
          alpha_0 = matmul (matmul (cmat (rotation_by (- phi_0) ''z'')) alpha0_diag)
                      (cmat (rotation_by phi_0 ''z''));
          alpha_1 = matmul (matmul (cmat (rotation_by (- phi_1) ''z'')) alpha1_diag)
                      (cmat (rotation_by phi_1 ''z''));
          G_d = G K drive_hbar_w d_col n_b
      in bind_err
           (linalg_inv (msub identity3 (matmul (matmul (matmul alpha_0 G_d) alpha_1) G_d)))
           (\<lambda>geometric_coupling_01.
              let p0 = matvec alpha_0 (cvec E_drive);
                  p1 = matvec (matmul alpha_1 G_d) p0
              in Inr (p0, p1)))"

text \<open>
  \<^verbatim>\<open>coupled_dip_mags_both_driven\<close>.  Everything after the coupling tensor \<^verbatim>\<open>G_d\<close> has
  been computed is \<open>both_driven_from_G\<close>, so that the solver can be read at any
  coupling tensor.
\<close>

definition both_driven_from_G ::
  "complex mat3 \<Rightarrow> real \<Rightarrow> real \<Rightarrow> real option \<Rightarrow> complex mat3 \<Rightarrow> complex mat3 \<Rightarrow> real
     \<Rightarrow> bool \<Rightarrow> error + ((complex vec3 \<times> complex vec3) \<times> (complex mat3 \<times> complex mat3) option)"
  where
  "both_driven_from_G G_d mol_angle plas_angle E_d_angle alpha0_diag alpha1_diag drive_amp
       return_polarizabilities =
     (let phi_0 = mol_angle;
          phi_1 = plas_angle;
          E_d_angle = (case E_d_angle of None \<Rightarrow> mol_angle | Some a \<Rightarrow> a);
          E_drive = vscale drive_amp (matvec (rotation_by E_d_angle ''z'') (Vec3 1 0 0));
          alpha_0_p0 = alpha0_diag;
          alpha_0 = matmul (matmul (cmat (rotation_by (- phi_0) ''z'')) alpha_0_p0)
                      (cmat (rotation_by phi_0 ''z''));
          alpha_1_p1 = alpha1_diag;
          alpha_1 = matmul (matmul (cmat (rotation_by (- phi_1) ''z'')) alpha_1_p1)
                      (cmat (rotation_by phi_1 ''z''))
      in bind_err
           (linalg_inv (msub identity3 (matmul (matmul (matmul alpha_0 G_d) alpha_1) G_d)))
           (\<lambda>geometric_coupling_01.
              let p0 = matvec
                         (matmul geometric_coupling_01
                            (matmul alpha_0 (madd identity3 (matmul G_d alpha_1))))
                         (cvec E_drive);
                  p1 = matvec
                         (matmul geometric_coupling_01
                            (matmul alpha_1 (madd identity3 (matmul G_d alpha_0))))
                         (cvec E_drive)
              in if \<not> return_polarizabilities then Inr ((p0, p1), None)
                 else Inr ((p0, p1), Some (alpha_0, alpha_1))))"

definition coupled_dip_mags_both_driven ::
  "physical_constants \<Rightarrow> real \<Rightarrow> real \<Rightarrow> real vec3 \<Rightarrow> real option \<Rightarrow> real
     \<Rightarrow> complex mat3 \<Rightarrow> complex mat3 \<Rightarrow> real \<Rightarrow> real \<Rightarrow> bool
     \<Rightarrow> error + ((complex vec3 \<times> complex vec3) \<times> (complex mat3 \<times> complex mat3) option)"
  where
  "coupled_dip_mags_both_driven K mol_angle plas_angle d_col E_d_angle drive_hbar_w
       alpha0_diag alpha1_diag n_b drive_amp return_polarizabilities =
     both_driven_from_G (G K drive_hbar_w d_col n_b) mol_angle plas_angle E_d_angle
       alpha0_diag alpha1_diag drive_amp return_polarizabilities"

definition single_dip_mag_pw ::
  "real \<Rightarrow> real option \<Rightarrow> complex mat3 \<Rightarrow> real \<Rightarrow> bool
     \<Rightarrow> complex vec3 \<times> complex mat3 option" where
  "single_dip_mag_pw angle E_d_angle alpha0_diag drive_amp return_polarizabilities =
     (let phi_0 = angle;
          E_d_angle = (case E_d_angle of None \<Rightarrow> angle | Some a \<Rightarrow> a);
          E_drive = vscale drive_amp (matvec (rotation_by E_d_angle ''z'') (Vec3 1 0 0));
          alpha_0_p0 = alpha0_diag;
          alpha_0 = matmul (matmul (cmat (rotation_by (- phi_0) ''z'')) alpha_0_p0)
                      (cmat (rotation_by phi_0 ''z''));
          p0 = matvec alpha_0 (cvec E_drive)
      in if \<not> return_polarizabilities then (p0, None) else (p0, Some alpha_0))"

section \<open>CrossSectionEngine\<close>

text \<open>The dipole-moment provider is a function of the angular frequency.\<close>

definition sigma_scat_coupled ::
  "physical_constants \<Rightarrow> (real \<Rightarrow> complex vec3 \<times> complex vec3) \<Rightarrow> real vec3 \<Rightarrow> real
     \<Rightarrow> real \<Rightarrow> complex \<Rightarrow> real \<times> real vec3" where
  "sigma_scat_coupled K dipoles_moments_per_omega d_col drive_hbar_w n_b E_0 =
     (let omega = drive_hbar_w / pc_hbar K;
          k = omega * n_b / pc_c K;
          (p_0, p_1) = dipoles_moments_per_omega omega;
          G_d = G K drive_hbar_w d_col n_b;
          interference_term =
            vsum (vadd (vimag (vmul p_0 (vconj (matvec G_d p_1))))
                       (vimag (vmul p_1 (vconj (matvec G_d p_0)))));
          diag_term_0 = (2 / 3) * k ^ 3 * \<bar>norm_complex p_0\<bar>\<^sup>2;
          diag_term_1 = (2 / 3) * k ^ 3 * \<bar>norm_complex p_1\<bar>\<^sup>2;
          sigma = ((4 * pi * k / (cmod E_0)\<^sup>2)
                    * (interference_term + diag_term_0 + diag_term_1)) / n_b
      in (sigma,
          vscale (4 * pi * k / (n_b * (cmod E_0)\<^sup>2))
            (Vec3 interference_term diag_term_0 diag_term_1)))"

definition single_dip_sigma_scat ::
  "physical_constants \<Rightarrow> (real \<Rightarrow> complex vec3) \<Rightarrow> real \<Rightarrow> real \<Rightarrow> complex \<Rightarrow> real" where
  "single_dip_sigma_scat K dipoles_moments_per_omega drive_hbar_w n_b E_0 =
     (let omega = drive_hbar_w / pc_hbar K;
          k = omega * n_b / pc_c K;
          p_0 = dipoles_moments_per_omega omega;
          diag_term_0 = (2 / 3) * k ^ 3 * \<bar>norm_complex p_0\<bar>\<^sup>2;
          sigma = (4 * pi * k / (cmod E_0)\<^sup>2) * diag_term_0 / n_b
      in sigma)"

section \<open>Reference formulas and sample inputs\<close>

text \<open>The quasistatic sphere polarizability in the words of the specification,
  \<open>a\<^sup>3 (\<epsilon> - \<epsilon>\<^sub>b) / (\<epsilon>\<^sub>b + (\<epsilon> - \<epsilon>\<^sub>b) / 3)\<close>, and the retardation correction
  \<open>\<alpha> / (1 - (k\<^sup>2 / a) \<alpha> - i (2 k\<^sup>3 / 3) \<alpha>)\<close>.\<close>

definition sphere_alphaR_spec :: "complex \<Rightarrow> real \<Rightarrow> real \<Rightarrow> complex" where
  "sphere_alphaR_spec eps eps_b a =
     of_real (a ^ 3) * (eps - of_real eps_b) / (of_real eps_b + (eps - of_real eps_b) / 3)"

definition retardation_denominator :: "real \<Rightarrow> real \<Rightarrow> complex \<Rightarrow> complex" where
  "retardation_denominator k a alphaR =
     1 - of_real (k\<^sup>2 / a) * alphaR - \<i> * of_real (2 * k ^ 3 / 3) * alphaR"

definition retardation_spec :: "real \<Rightarrow> real \<Rightarrow> complex \<Rightarrow> complex" where
  "retardation_spec k a alphaR = alphaR / retardation_denominator k a alphaR"

text \<open>The Green tensor in the words of the specification, entry by entry:
  \<open>exp(ikr) [(3 n\<^sub>i n\<^sub>j - \<delta>\<^sub>i\<^sub>j) (1/r\<^sup>3 - ik/r\<^sup>2) - (n\<^sub>i n\<^sub>j - \<delta>\<^sub>i\<^sub>j) k\<^sup>2/r]\<close>.\<close>

definition G_spec_entry :: "real \<Rightarrow> real \<Rightarrow> real \<Rightarrow> real \<Rightarrow> real \<Rightarrow> complex" where
  "G_spec_entry r k n_i n_j delta =
     exp (\<i> * of_real (k * r)) *
       (of_real (3 * n_i * n_j - delta) * (1 / of_real (r ^ 3) - \<i> * of_real k / of_real (r\<^sup>2))
        - of_real (n_i * n_j - delta) * of_real (k\<^sup>2 / r))"

fun G_spec :: "real \<Rightarrow> real vec3 \<Rightarrow> real \<Rightarrow> complex mat3" where
  "G_spec r (Vec3 n1 n2 n3) k =
     Mat3 (G_spec_entry r k n1 n1 1) (G_spec_entry r k n1 n2 0) (G_spec_entry r k n1 n3 0)
          (G_spec_entry r k n2 n1 0) (G_spec_entry r k n2 n2 1) (G_spec_entry r k n2 n3 0)
          (G_spec_entry r k n3 n1 0) (G_spec_entry r k n3 n2 0) (G_spec_entry r k n3 n3 1)"

text \<open>The scattering cross section in the words of the specification,
  \<open>(4 \<pi> k / (n\<^sub>b |E\<^sub>0|\<^sup>2)) [Im(p0 \<cdot> conj(G p1)) + Im(p1 \<cdot> conj(G p0)) + (2/3) k\<^sup>3 (|p0|\<^sup>2 + |p1|\<^sup>2)]\<close>,
  and the same with the terms of the second dipole removed.\<close>

fun dot3 :: "complex vec3 \<Rightarrow> complex vec3 \<Rightarrow> complex" where
  "dot3 (Vec3 x y z) (Vec3 u v w) = x * u + y * v + z * w"

fun sq_norm :: "complex vec3 \<Rightarrow> real" where
  "sq_norm (Vec3 x y z) = (cmod x)\<^sup>2 + (cmod y)\<^sup>2 + (cmod z)\<^sup>2"

definition sigma_scat_spec ::
  "real \<Rightarrow> real \<Rightarrow> complex \<Rightarrow> complex mat3 \<Rightarrow> complex vec3 \<Rightarrow> complex vec3 \<Rightarrow> real" where
  "sigma_scat_spec k n_b E_0 G_d p0 p1 =
     (4 * pi * k / (n_b * (cmod E_0)\<^sup>2)) *
       (Im (dot3 p0 (vconj (matvec G_d p1))) + Im (dot3 p1 (vconj (matvec G_d p0)))
        + (2 / 3) * k ^ 3 * (sq_norm p0 + sq_norm p1))"

definition sigma_scat_single_spec :: "real \<Rightarrow> real \<Rightarrow> complex \<Rightarrow> complex vec3 \<Rightarrow> real" where
  "sigma_scat_single_spec k n_b E_0 p0 =
     (4 * pi * k / (n_b * (cmod E_0)\<^sup>2)) * ((2 / 3) * k ^ 3 * sq_norm p0)"

text \<open>Names for the quantities of the solver: the polarizability in the lab frame,
  \<open>R(-\<phi>) \<alpha> R(\<phi>)\<close>, the drive field rotated to the angle of the field, and the matrix
  \<open>I - \<alpha>\<^sub>0 G \<alpha>\<^sub>1 G\<close> that the solver inverts.\<close>

definition lab_frame :: "real \<Rightarrow> complex mat3 \<Rightarrow> complex mat3" where
  "lab_frame \<phi> alpha_diag =
     matmul (matmul (cmat (rotation_by (- \<phi>) ''z'')) alpha_diag) (cmat (rotation_by \<phi> ''z''))"

definition drive_field :: "real \<Rightarrow> real \<Rightarrow> complex vec3" where
  "drive_field E_angle drive_amp =
     cvec (vscale drive_amp (matvec (rotation_by E_angle ''z'') (Vec3 1 0 0)))"

definition round_trip :: "complex mat3 \<Rightarrow> complex mat3 \<Rightarrow> complex mat3 \<Rightarrow> complex mat3" where
  "round_trip \<alpha>0 G_d \<alpha>1 = msub identity3 (matmul (matmul (matmul \<alpha>0 G_d) \<alpha>1) G_d)"

text \<open>A table of constants in CGS units with energies in eV, for the sample inputs.\<close>

definition cgs_constants :: physical_constants where
  "cgs_constants =
     \<lparr>pc_e = 480326 / 10 ^ 15, pc_c = 29979245800, pc_hbar = 6582119514 / 10 ^ 25,
      pc_nm = 1 / 10 ^ 7, pc_nA = 602214076 * 10 ^ 15\<rparr>"

section \<open>Algebra of the tensor operations\<close>

lemma matmul_assoc: "matmul (matmul A B) C = matmul A (matmul B C)"
  by (cases A; cases B; cases C) (simp add: algebra_simps)

lemma matmul_identity_left [simp]: "matmul identity3 A = A"
  by (cases A) (simp add: identity3_def)

lemma matmul_identity_right [simp]: "matmul A identity3 = A"
  by (cases A) (simp add: identity3_def)

lemma cmat_matmul: "cmat (matmul A B) = matmul (cmat A) (cmat B)"
  by (cases A; cases B) (simp add: cmat_def)

lemma cmat_identity [simp]: "cmat identity3 = identity3"
  by (simp add: cmat_def identity3_def)

lemma rotation_by_inverse:
  assumes "rot_axis = ''x'' \<or> rot_axis = ''y'' \<or> rot_axis = ''z''"
  shows "matmul (rotation_by (- \<phi>) rot_axis) (rotation_by \<phi> rot_axis) = identity3"
proof -
  have sc: "sin \<phi> * sin \<phi> + cos \<phi> * cos \<phi> = 1" "cos \<phi> * cos \<phi> + sin \<phi> * sin \<phi> = 1"
    using sin_cos_squared_add [of \<phi>] by (simp_all add: power2_eq_square add.commute)
  from assms show ?thesis
    by (auto simp: rotation_by_def identity3_def Let_def sc)
qed

lemma rotation_by_inverse': 
  assumes "rot_axis = ''x'' \<or> rot_axis = ''y'' \<or> rot_axis = ''z''"
  shows "matmul (rotation_by \<phi> rot_axis) (rotation_by (- \<phi>) rot_axis) = identity3"
  using rotation_by_inverse [OF assms, of "- \<phi>"] by simp

lemma bind_err_simps [simp]:
  "bind_err (Inl e) f = Inl e" "bind_err (Inr x) f = f x"
  by (simp_all add: bind_err_def)

lemma read_local_simps [simp]:
  "read_local None = Inl UnboundLocalError" "read_local (Some x) = Inr x"
  by (simp_all add: read_local_def)

lemma cmat_Mat3 [simp]:
  "cmat (Mat3 a b c d e f g h i) =
     Mat3 (of_real a) (of_real b) (of_real c) (of_real d) (of_real e) (of_real f)
          (of_real g) (of_real h) (of_real i)"
  by (simp add: cmat_def)

lemma cvec_Vec3 [simp]: "cvec (Vec3 x y z) = Vec3 (of_real x) (of_real y) (of_real z)"
  by (simp add: cvec_def)

lemma matmul_zeros_right [simp]: "matmul A zeros3 = zeros3"
  by (cases A) (simp add: zeros3_def)

lemma matmul_zeros_left [simp]: "matmul zeros3 A = zeros3"
  by (cases A) (simp add: zeros3_def)

lemma msub_zeros [simp]: "msub A zeros3 = A"
  by (cases A) (simp add: zeros3_def)

lemma madd_zeros [simp]: "madd A zeros3 = A"
  by (cases A) (simp add: zeros3_def)

lemma linalg_inv_identity [simp]: "linalg_inv identity3 = Inr identity3"
  by (simp add: linalg_inv_def identity3_def)

section \<open>The rotation round trip\<close>

text \<open>
  Claim C7.  For each of the axes \<^verbatim>\<open>'x'\<close>, \<^verbatim>\<open>'y'\<close>, \<^verbatim>\<open>'z'\<close> and every angle (a scalar,
  or each entry of an array of angles), the rotation by \<open>- \<phi>\<close> times the rotation by
  \<open>\<phi>\<close> is the identity; hence a tensor conjugated with the rotation by \<open>\<phi>\<close>, as the
  solver does, and then with the rotation by \<open>- \<phi>\<close>, is the tensor itself.
\<close>

theorem rotation_by_round_trip:
  assumes "rot_axis \<in> {''x'', ''y'', ''z''}"
  shows "matmul (rotation_by (- \<phi>) rot_axis) (rotation_by \<phi> rot_axis) = identity3
       \<and> matmul_batch (rotation_by_array (map uminus \<phi>s) rot_axis)
            (rotation_by_array \<phi>s rot_axis) = replicate (length \<phi>s) identity3
       \<and> matmul (matmul (cmat (rotation_by \<phi> rot_axis))
            (matmul (matmul (cmat (rotation_by (- \<phi>) rot_axis)) T)
               (cmat (rotation_by \<phi> rot_axis))))
            (cmat (rotation_by (- \<phi>) rot_axis)) = T"
proof -
  from assms have ax: "rot_axis = ''x'' \<or> rot_axis = ''y'' \<or> rot_axis = ''z''" by simp
  have 1: "matmul (rotation_by (- a) rot_axis) (rotation_by a rot_axis) = identity3" for a
    by (rule rotation_by_inverse [OF ax])
  have 2: "matmul (rotation_by a rot_axis) (rotation_by (- a) rot_axis) = identity3" for a
    by (rule rotation_by_inverse' [OF ax])
  have 3: "matmul_batch (rotation_by_array (map uminus \<phi>s) rot_axis)
            (rotation_by_array \<phi>s rot_axis) = replicate (length \<phi>s) identity3"
    by (induction \<phi>s) (simp_all add: matmul_batch_def rotation_by_array_def 1)
  let ?R = "cmat (rotation_by \<phi> rot_axis)" and ?R' = "cmat (rotation_by (- \<phi>) rot_axis)"
  have c1: "matmul ?R ?R' = identity3" and c2: "matmul ?R' ?R = identity3"
    using 1 [of \<phi>] 2 [of \<phi>] by (simp_all flip: cmat_matmul)
  have "matmul (matmul ?R (matmul (matmul ?R' T) ?R)) ?R'
      = matmul (matmul (matmul ?R ?R') T) (matmul ?R ?R')"
    by (simp only: matmul_assoc)
  also have "\<dots> = T" by (simp add: c1)
  finally show ?thesis using 1 3 by simp
qed

theorem rotation_by_round_trip_witness:
  "''z'' \<in> {''x'', ''y'', ''z''}
   \<and> matmul (rotation_by (- (pi / 2)) ''z'') (rotation_by (pi / 2) ''z'') = identity3
   \<and> matmul_batch (rotation_by_array (map uminus [0, pi / 2]) ''z'')
        (rotation_by_array [0, pi / 2] ''z'') = replicate (length [0, pi / 2 :: real]) identity3
   \<and> matmul (matmul (cmat (rotation_by (pi / 2) ''z''))
        (matmul (matmul (cmat (rotation_by (- (pi / 2)) ''z'')) (Mat3 1 2 3 4 5 6 7 8 9))
           (cmat (rotation_by (pi / 2) ''z''))))
        (cmat (rotation_by (- (pi / 2)) ''z'')) = Mat3 1 2 3 4 5 6 7 8 9"
  using rotation_by_round_trip [of "''z''" "pi / 2" "[0, pi / 2]" "Mat3 1 2 3 4 5 6 7 8 9"]
  by simp

section \<open>The degenerate spheroid\<close>

text \<open>
  Claim C9.  With \<^verbatim>\<open>a_x\<close> equal to \<^verbatim>\<open>a_yz\<close> the function
  \<^verbatim>\<open>sparse_ret_prolate_spheroid_polarizability\<close> raises \<^verbatim>\<open>UnboundLocalError\<close> whatever
  the other arguments and the isolate mode are: neither the prolate nor the oblate
  branch runs, so the diagonal entries are never assigned, and the geometric factors
  \<^verbatim>\<open>L_x\<close>, \<^verbatim>\<open>D_x\<close> and \<^verbatim>\<open>D_yz\<close> would be read unassigned as well.
\<close>

theorem spheroid_sphere_degenerate:
  "sparse_ret_prolate_spheroid_polarizability K eps eps_b a a w isolate_mode
     = Inl UnboundLocalError
   \<and> L_x a a = Inl UnboundLocalError \<and> D_x a a = Inl UnboundLocalError
   \<and> D_yz a a = Inl UnboundLocalError"
  by (simp add: sparse_ret_prolate_spheroid_polarizability_def L_x_def D_x_def D_yz_def)

section \<open>The retarded sphere polarizability\<close>

lemma sphere_alphaR_ii_third:
  assumes "of_real eps_b + (eps - of_real eps_b) / 3 \<noteq> 0"
  shows "sphere_alphaR_ii eps eps_b i a = Inr (sphere_alphaR_spec eps eps_b a / 3)"
  using assms unfolding sphere_alphaR_ii_def sphere_alphaR_spec_def by simp

lemma sphere_alphaMW_ii_retardation:
  assumes "of_real eps_b + (eps - of_real eps_b) / 3 \<noteq> 0"
  shows "sphere_alphaMW_ii K eps eps_b w i a =
     Inr (retardation_spec (w * sqrt eps_b / pc_c K) a (sphere_alphaR_spec eps eps_b a / 3))"
  unfolding sphere_alphaMW_ii_def sphere_alphaR_ii_third [OF assms] bind_err_simps
    retardation_spec_def retardation_denominator_def Let_def
  by (simp only: mult.assoc)

text \<open>Where the denominator of the quasistatic value is zero the function raises,
  whatever the isolate mode; so it does at \<open>\<epsilon> = - 2\<close>, \<open>\<epsilon>\<^sub>b = 1\<close>.\<close>

lemma sphere_polarizability_zero_division:
  assumes "of_real eps_b + (eps - of_real eps_b) / 3 = 0"
  shows "sparse_ret_sphere_polarizability K eps eps_b a w isolate_mode = Inl ZeroDivisionError"
  using assms
  by (simp add: sparse_ret_sphere_polarizability_def sphere_alphaMW_ii_def sphere_alphaR_ii_def)

lemma sphere_polarizability_pole:
  "sparse_ret_sphere_polarizability cgs_constants (- 2) 1 1 0 None = Inl ZeroDivisionError"
  by (rule sphere_polarizability_zero_division) simp

text \<open>
  Claim C6, as the code has it.  Let the radius be positive, the background
  permittivity non-negative, the speed of light non-zero, and let the two denominators
  be non-zero: \<open>\<epsilon>\<^sub>b + (\<epsilon> - \<epsilon>\<^sub>b) / 3\<close> of the quasistatic value and
  \<open>1 - (k\<^sup>2 / a) \<alpha> - i (2 k\<^sup>3 / 3) \<alpha>\<close> of the retardation correction.  Then, with no
  isolate mode, the tensor of \<^verbatim>\<open>sparse_ret_sphere_polarizability\<close> is diagonal with
  three equal entries, the retardation correction with \<open>k = w sqrt \<epsilon>\<^sub>b / c\<close> applied to
  the quasistatic value \<open>(a\<^sup>3 / 3) (\<epsilon> - \<epsilon>\<^sub>b) / (\<epsilon>\<^sub>b + (\<epsilon> - \<epsilon>\<^sub>b) / 3)\<close>: one third of the
  value that the specification writes.
\<close>

theorem sphere_polarizability_third:
  assumes "0 < a" and "0 \<le> eps_b" and "pc_c K \<noteq> 0"
    and "of_real eps_b + (eps - of_real eps_b) / 3 \<noteq> 0"
    and "retardation_denominator (w * sqrt eps_b / pc_c K) a
           (sphere_alphaR_spec eps eps_b a / 3) \<noteq> 0"
  shows "sparse_ret_sphere_polarizability K eps eps_b a w None =
     (let k = w * sqrt eps_b / pc_c K;
          alpha = retardation_spec k a (sphere_alphaR_spec eps eps_b a / 3)
      in Inr (Mat3 alpha 0 0  0 alpha 0  0 0 alpha))"
  unfolding sparse_ret_sphere_polarizability_def sphere_alphaMW_ii_retardation [OF assms(4)]
    Let_def
  by (simp add: distribute_sphere_alpha_components_into_tensor_def)

theorem sphere_polarizability_third_witness:
  "(0::real) < 1 \<and> (0::real) \<le> 1 \<and> pc_c cgs_constants \<noteq> 0
   \<and> complex_of_real 1 + (4 - complex_of_real 1) / 3 \<noteq> 0
   \<and> retardation_denominator (0 * sqrt 1 / pc_c cgs_constants) 1
        (sphere_alphaR_spec 4 1 1 / 3) \<noteq> 0
   \<and> sparse_ret_sphere_polarizability cgs_constants 4 1 1 0 None =
      Inr (Mat3 (1 / 2) 0 0  0 (1 / 2) 0  0 0 (1 / 2))"
  using sphere_polarizability_third [of 1 1 cgs_constants 4 0]
  by (simp add: retardation_spec_def retardation_denominator_def sphere_alphaR_spec_def
      cgs_constants_def Let_def)

text \<open>
  With the quasistatic value of the specification the entries differ: for \<open>\<epsilon> = 4\<close>,
  \<open>\<epsilon>\<^sub>b = 1\<close>, \<open>a = 1\<close> at zero frequency no denominator is zero, the code gives \<open>1 / 2\<close>
  and the formula of the specification gives \<open>3 / 2\<close>.
\<close>

theorem sphere_polarizability_spec_counterexample:
  "sparse_ret_sphere_polarizability cgs_constants 4 1 1 0 None =
      Inr (Mat3 (1 / 2) 0 0  0 (1 / 2) 0  0 0 (1 / 2))
   \<and> retardation_spec (0 * sqrt 1 / pc_c cgs_constants) 1 (sphere_alphaR_spec 4 1 1) = 3 / 2
   \<and> sparse_ret_sphere_polarizability cgs_constants 4 1 1 0 None \<noteq>
      (let alpha = retardation_spec (0 * sqrt 1 / pc_c cgs_constants) 1
                     (sphere_alphaR_spec 4 1 1)
       in Inr (Mat3 alpha 0 0  0 alpha 0  0 0 alpha))"
  by (simp add: sparse_ret_sphere_polarizability_def sphere_alphaMW_ii_def
      sphere_alphaR_ii_def distribute_sphere_alpha_components_into_tensor_def
      retardation_spec_def retardation_denominator_def sphere_alphaR_spec_def Let_def
      cgs_constants_def)

section \<open>The uncoupled limit\<close>

text \<open>
  Claim C3.  With the zero tensor in place of the coupling tensor,
  \<^verbatim>\<open>coupled_dip_mags_both_driven\<close> returns \<open>p0 = \<alpha>\<^sub>0 E\<close> and \<open>p1 = \<alpha>\<^sub>1 E\<close> for the rotated
  polarizabilities and the rotated drive field: the moments that \<^verbatim>\<open>single_dip_mag_pw\<close>
  returns for each dipole alone in the same field.
\<close>

theorem both_driven_uncoupled_limit:
  "both_driven_from_G zeros3 mol_angle plas_angle E_d_angle alpha0_diag alpha1_diag drive_amp
       False =
     (let E_angle = (case E_d_angle of None \<Rightarrow> mol_angle | Some a \<Rightarrow> a);
          E = cvec (vscale drive_amp (matvec (rotation_by E_angle ''z'') (Vec3 1 0 0)));
          alpha_0 = matmul (matmul (cmat (rotation_by (- mol_angle) ''z'')) alpha0_diag)
                      (cmat (rotation_by mol_angle ''z''));
          alpha_1 = matmul (matmul (cmat (rotation_by (- plas_angle) ''z'')) alpha1_diag)
                      (cmat (rotation_by plas_angle ''z''))
      in Inr ((matvec alpha_0 E, matvec alpha_1 E), None))
   \<and> both_driven_from_G zeros3 mol_angle plas_angle E_d_angle alpha0_diag alpha1_diag
       drive_amp False =
     Inr ((fst (single_dip_mag_pw mol_angle E_d_angle alpha0_diag drive_amp False),
           fst (single_dip_mag_pw plas_angle
                  (Some (case E_d_angle of None \<Rightarrow> mol_angle | Some a \<Rightarrow> a))
                  alpha1_diag drive_amp False)), None)"
  by (simp add: both_driven_from_G_def single_dip_mag_pw_def Let_def)

section \<open>The default of the drive-field angle\<close>

text \<open>For scalar angles, leaving \<^verbatim>\<open>E_d_angle\<close> out is the same as passing the angle of
  the emitter, in each of the six entry points.\<close>

lemma E_d_angle_default_scalar:
  "rotate_molecule (Scalar mol_angle) alpha0_diag None drive_amp =
     rotate_molecule (Scalar mol_angle) alpha0_diag (Some (Scalar mol_angle)) drive_amp"
  "dipole_mags_gened K (Scalar mol_angle) plas_angle d_col None drive_hbar_w alpha0_diag
       alpha1_diag n_b drive_amp =
     dipole_mags_gened K (Scalar mol_angle) plas_angle d_col (Some (Scalar mol_angle))
       drive_hbar_w alpha0_diag alpha1_diag n_b drive_amp"
  "uncoupled_p0 (Scalar mol_angle) None alpha0_diag drive_amp ret =
     uncoupled_p0 (Scalar mol_angle) (Some (Scalar mol_angle)) alpha0_diag drive_amp ret"
  "coupled_dip_mags_both_driven K mol_angle plas_angle d_col None drive_hbar_w alpha0_diag
       alpha1_diag n_b drive_amp ret =
     coupled_dip_mags_both_driven K mol_angle plas_angle d_col (Some mol_angle) drive_hbar_w
       alpha0_diag alpha1_diag n_b drive_amp ret"
  "plas_dip_driven_by_mol K mol_angle plas_angle d_col mol_dipole_mag None drive_hbar_w
       alpha1_diag n_b drive_amp =
     plas_dip_driven_by_mol K mol_angle plas_angle d_col mol_dipole_mag (Some mol_angle)
       drive_hbar_w alpha1_diag n_b drive_amp"
  "single_dip_mag_pw mol_angle None alpha0_diag drive_amp ret =
     single_dip_mag_pw mol_angle (Some mol_angle) alpha0_diag drive_amp ret"
  by (simp_all add: rotate_molecule_def dipole_mags_gened_def uncoupled_p0_def
      coupled_dip_mags_both_driven_def both_driven_from_G_def plas_dip_driven_by_mol_def
      single_dip_mag_pw_def E_d_angle_or_default_def)

text \<open>
  Claim C10.  In \<^verbatim>\<open>rotate_molecule\<close> the out-of-plane orientation is a two-dimensional
  array \<^verbatim>\<open>[[theta, phi]]\<close>.  With \<^verbatim>\<open>E_d_angle\<close> left out the drive field follows the
  emitter; with the same array passed as \<^verbatim>\<open>E_d_angle\<close> the test against \<^verbatim>\<open>None\<close>
  raises, so the two calls do not return the same.
\<close>

theorem E_d_angle_array_raises:
  "rotate_molecule (Polar 0 0) (Mat3 1 0 0  0 0 0  0 0 0) None 1 =
     Inr (Mat3 0 0 0  0 0 0  0 0 1, Vec3 0 0 1)
   \<and> rotate_molecule (Polar 0 0) (Mat3 1 0 0  0 0 0  0 0 0) (Some (Polar 0 0)) 1 =
     Inl ValueError"
  by (simp add: rotate_molecule_def E_d_angle_or_default_def rotation_by_def Let_def)

section \<open>The coupling tensor\<close>

lemma G_eq_G_spec:
  "G K drive_hbar_w d_col n_b =
     G_spec (vec_mag d_col) (vdiv d_col (vec_mag d_col))
       (drive_hbar_w / pc_hbar K * n_b / pc_c K)"
  by (cases d_col)
     (simp add: G_def Let_def identity3_def cmat_def G_spec_entry_def algebra_simps)

lemma unit_direction:
  assumes "0 < vec_mag d_col"
  shows "norm_real (vdiv d_col (vec_mag d_col)) = 1"
    and "vscale (vec_mag d_col) (vdiv d_col (vec_mag d_col)) = d_col"
proof -
  obtain x y z where d: "d_col = Vec3 x y z" by (cases d_col)
  let ?r = "sqrt (x\<^sup>2 + y\<^sup>2 + z\<^sup>2)"
  from assms have r: "0 < ?r" by (simp add: d vec_mag_def)
  then have s: "0 < x\<^sup>2 + y\<^sup>2 + z\<^sup>2" by simp
  have r2: "?r\<^sup>2 = x\<^sup>2 + y\<^sup>2 + z\<^sup>2" using s by simp
  have "(x / ?r)\<^sup>2 + (y / ?r)\<^sup>2 + (z / ?r)\<^sup>2 = (x\<^sup>2 + y\<^sup>2 + z\<^sup>2) / ?r\<^sup>2"
    unfolding power_divide by (simp only: add_divide_distrib)
  also have "\<dots> = 1" unfolding r2 using s by simp
  finally have "(x / ?r)\<^sup>2 + (y / ?r)\<^sup>2 + (z / ?r)\<^sup>2 = 1" .
  then show "norm_real (vdiv d_col (vec_mag d_col)) = 1"
    by (simp add: d vec_mag_def power_divide)
  show "vscale (vec_mag d_col) (vdiv d_col (vec_mag d_col)) = d_col"
    using r by (simp add: d vec_mag_def)
qed

lemma scaled_unit_vector:
  assumes "0 < r" "norm_real n_hat = 1"
  shows "vec_mag (vscale r n_hat) = r" and "vdiv (vscale r n_hat) r = n_hat"
proof -
  obtain x y z where n: "n_hat = Vec3 x y z" by (cases n_hat)
  from assms have u: "x\<^sup>2 + y\<^sup>2 + z\<^sup>2 = 1" by (simp add: n)
  have "(r * x)\<^sup>2 + (r * y)\<^sup>2 + (r * z)\<^sup>2 = r\<^sup>2 * (x\<^sup>2 + y\<^sup>2 + z\<^sup>2)"
    by (simp add: power_mult_distrib algebra_simps)
  then show "vec_mag (vscale r n_hat) = r"
    using assms(1) by (simp add: n vec_mag_def u)
  show "vdiv (vscale r n_hat) r = n_hat" using assms(1) by (simp add: n)
qed

text \<open>
  Claim C4.  For a separation vector of positive length \<open>r\<close>, with \<open>n = d / r\<close> and
  \<open>k = \<omega> n\<^sub>b / c\<close>, \<open>\<omega> = \<close>\<^verbatim>\<open>drive_hbar_w/hbar\<close>, the tensor that \<^verbatim>\<open>G\<close> returns has the
  entries \<open>exp(ikr) [(3 n\<^sub>i n\<^sub>j - \<delta>\<^sub>i\<^sub>j) (1/r\<^sup>3 - ik/r\<^sup>2) - (n\<^sub>i n\<^sub>j - \<delta>\<^sub>i\<^sub>j) k\<^sup>2/r]\<close>: a function
  of the length \<open>r\<close> and the unit direction \<open>n\<close> of \<open>d = r n\<close>, and of \<open>k\<close>.
\<close>

theorem G_closed_form:
  assumes "0 < vec_mag d_col"
  shows "G K drive_hbar_w d_col n_b =
           G_spec (vec_mag d_col) (vdiv d_col (vec_mag d_col))
             (drive_hbar_w / pc_hbar K * n_b / pc_c K)
       \<and> norm_real (vdiv d_col (vec_mag d_col)) = 1
       \<and> vscale (vec_mag d_col) (vdiv d_col (vec_mag d_col)) = d_col"
  using G_eq_G_spec unit_direction [OF assms] by simp

theorem G_closed_form_witness:
  "0 < vec_mag (Vec3 1 0 0)
   \<and> G cgs_constants 0 (Vec3 1 0 0) 1 = G_spec 1 (Vec3 1 0 0) 0
   \<and> G cgs_constants 0 (Vec3 1 0 0) 1 = Mat3 2 0 0  0 (- 1) 0  0 0 (- 1)"
  using G_closed_form [of "Vec3 1 0 0" cgs_constants 0 1]
  by (simp add: vec_mag_def G_spec_entry_def)

section \<open>The scattering cross section\<close>

lemma abs_norm_complex_sq: "\<bar>norm_complex p\<bar>\<^sup>2 = sq_norm p"
proof (cases p)
  case (Vec3 x y z)
  have "0 \<le> (cmod x)\<^sup>2 + (cmod y)\<^sup>2 + (cmod z)\<^sup>2" by simp
  then show ?thesis unfolding Vec3 by (simp del: power2_eq_iff_nonneg)
qed

lemma interference_sum:
  "vsum (vadd (vimag (vmul p (vconj u))) (vimag (vmul q (vconj v))))
     = Im (dot3 p (vconj u)) + Im (dot3 q (vconj v))"
  by (cases p; cases q; cases u; cases v) simp

lemma prefactor_n_b: "(a / e) * x / n = (a / (n * e)) * (x::real)"
  by (simp add: mult.commute)

text \<open>
  Claim C5.  The first element that \<^verbatim>\<open>sigma_scat_coupled\<close> returns is the cross
  section of the specification at \<open>k = \<omega> n\<^sub>b / c\<close>, for the moments that the provider
  returns at \<open>\<omega>\<close> and the coupling tensor \<^verbatim>\<open>G(drive_hbar_w, d_col, n_b)\<close>; the value of
  \<^verbatim>\<open>single_dip_sigma_scat\<close> is that expression without the terms of the second dipole,
  which is also its value at \<open>p1 = 0\<close>.
\<close>

theorem sigma_scat_coupled_formula:
  "fst (sigma_scat_coupled K dipoles_moments_per_omega d_col drive_hbar_w n_b E_0) =
     (let k = drive_hbar_w / pc_hbar K * n_b / pc_c K;
          (p0, p1) = dipoles_moments_per_omega (drive_hbar_w / pc_hbar K)
      in sigma_scat_spec k n_b E_0 (G K drive_hbar_w d_col n_b) p0 p1)
   \<and> single_dip_sigma_scat K single_moment_per_omega drive_hbar_w n_b E_0 =
     (let k = drive_hbar_w / pc_hbar K * n_b / pc_c K;
          p0 = single_moment_per_omega (drive_hbar_w / pc_hbar K)
      in sigma_scat_single_spec k n_b E_0 p0)
   \<and> sigma_scat_single_spec k' n_b E_0 p = sigma_scat_spec k' n_b E_0 G_d p (Vec3 0 0 0)"
proof -
  have 3: "sigma_scat_single_spec k' n_b E_0 p = sigma_scat_spec k' n_b E_0 G_d p (Vec3 0 0 0)"
    by (cases p; cases G_d) (simp add: sigma_scat_single_spec_def sigma_scat_spec_def)
  have 2: "single_dip_sigma_scat K single_moment_per_omega drive_hbar_w n_b E_0 =
     (let k = drive_hbar_w / pc_hbar K * n_b / pc_c K;
          p0 = single_moment_per_omega (drive_hbar_w / pc_hbar K)
      in sigma_scat_single_spec k n_b E_0 p0)"
    unfolding single_dip_sigma_scat_def sigma_scat_single_spec_def Let_def abs_norm_complex_sq
    by (rule prefactor_n_b)
  obtain p0 p1 where p: "dipoles_moments_per_omega (drive_hbar_w / pc_hbar K) = (p0, p1)"
    by (cases "dipoles_moments_per_omega (drive_hbar_w / pc_hbar K)")
  have 1: "fst (sigma_scat_coupled K dipoles_moments_per_omega d_col drive_hbar_w n_b E_0) =
     (let k = drive_hbar_w / pc_hbar K * n_b / pc_c K;
          (p0, p1) = dipoles_moments_per_omega (drive_hbar_w / pc_hbar K)
      in sigma_scat_spec k n_b E_0 (G K drive_hbar_w d_col n_b) p0 p1)"
    unfolding sigma_scat_coupled_def sigma_scat_spec_def Let_def p prod.case fst_conv
      abs_norm_complex_sq interference_sum
    by (subst prefactor_n_b) (simp only: distrib_left add.assoc)
  from 1 2 3 show ?thesis by blast
qed


section \<open>The coupled solver\<close>

lemma matvec_matmul: "matvec (matmul A B) v = matvec A (matvec B v)"
  by (cases A; cases B; cases v) (simp add: algebra_simps)

lemma matmul_madd: "matmul A (madd B C) = madd (matmul A B) (matmul A C)"
  by (cases A; cases B; cases C) (simp add: algebra_simps)

lemma matvec_madd: "matvec (madd A B) v = vadd (matvec A v) (matvec B v)"
  by (cases A; cases B; cases v) (simp add: algebra_simps)

lemma matvec_msub: "matvec (msub A B) v = vsub (matvec A v) (matvec B v)"
  by (cases A; cases B; cases v) (simp add: algebra_simps)

lemma matvec_vadd: "matvec A (vadd u v) = vadd (matvec A u) (matvec A v)"
  by (cases A; cases u; cases v) (simp add: algebra_simps)

lemma matvec_identity [simp]: "matvec identity3 v = v"
  by (cases v) (simp add: identity3_def)

lemma vsub_eq_vadd: "vsub u v = w \<longleftrightarrow> u = vadd w v"
  by (cases u; cases v; cases w) (auto simp: algebra_simps)

lemma matmul_adjugate: "matmul A (adjugate A) = mscale (det3 A) identity3"
  by (cases A) (simp add: identity3_def algebra_simps)

lemma adjugate_matmul: "matmul (adjugate A) A = mscale (det3 A) identity3"
  by (cases A) (simp add: identity3_def algebra_simps)

lemma matmul_mscale_right: "matmul A (mscale s B) = mscale s (matmul A B)"
  by (cases A; cases B) (simp add: algebra_simps)

lemma matmul_mscale_left: "matmul (mscale s A) B = mscale s (matmul A B)"
  by (cases A; cases B) (simp add: algebra_simps)

lemma mscale_mscale: "mscale s (mscale t A) = mscale (s * t) A"
  by (cases A) (simp add: algebra_simps)

lemma mscale_one [simp]: "mscale 1 A = A"
  by (cases A) simp

lemma linalg_inv_Inr:
  assumes "linalg_inv A = Inr M"
  shows "det3 A \<noteq> 0" and "matmul A M = identity3" and "matmul M A = identity3"
proof -
  from assms show d: "det3 A \<noteq> 0" by (auto simp: linalg_inv_def split: if_splits)
  with assms have M: "M = mscale (1 / det3 A) (adjugate A)"
    by (simp add: linalg_inv_def)
  show "matmul A M = identity3"
    using d by (simp add: M matmul_mscale_right matmul_adjugate mscale_mscale)
  show "matmul M A = identity3"
    using d by (simp add: M matmul_mscale_left adjugate_matmul mscale_mscale)
qed

lemma both_driven_from_G_Inr:
  assumes "linalg_inv (round_trip (lab_frame mol_angle alpha0_diag) G_d
             (lab_frame plas_angle alpha1_diag)) = Inr M"
  shows "both_driven_from_G G_d mol_angle plas_angle E_d_angle alpha0_diag alpha1_diag
           drive_amp False =
         (let \<alpha>0 = lab_frame mol_angle alpha0_diag;
              \<alpha>1 = lab_frame plas_angle alpha1_diag;
              E = drive_field (case E_d_angle of None \<Rightarrow> mol_angle | Some a \<Rightarrow> a) drive_amp
          in Inr ((matvec (matmul M (matmul \<alpha>0 (madd identity3 (matmul G_d \<alpha>1)))) E,
                   matvec (matmul M (matmul \<alpha>1 (madd identity3 (matmul G_d \<alpha>0)))) E),
                  None))"
  using assms
  by (simp add: both_driven_from_G_def Let_def lab_frame_def drive_field_def round_trip_def)

lemma solve_with_inverse:
  assumes "linalg_inv X = Inr M"
  shows "matvec X (matvec (matmul M B) v) = matvec B v"
proof -
  have "matvec X (matvec (matmul M B) v) = matvec (matmul (matmul X M) B) v"
    by (simp only: matvec_matmul matmul_assoc)
  then show ?thesis by (simp add: linalg_inv_Inr(2) [OF assms])
qed




lemma rotation_by_zero [simp]: "rotation_by 0 ''z'' = identity3"
  by (simp add: rotation_by_def identity3_def)

lemma lab_frame_zero [simp]: "lab_frame 0 A = A"
  by (simp add: lab_frame_def)

lemma drive_field_zero [simp]: "drive_field 0 amp = Vec3 (of_real amp) 0 0"
  by (simp add: drive_field_def identity3_def cvec_def)

lemma G_static_x: "G K 0 (Vec3 1 0 0) n_b = Mat3 2 0 0  0 (- 1) 0  0 0 (- 1)"
  by (simp add: G_def vec_mag_def identity3_def cmat_def)


lemma matvec_vscale: "matvec A (vscale s v) = vscale s (matvec A v)"
  by (cases A; cases v) (simp add: algebra_simps)

lemma rotated_drive:
  "cvec (matvec (rotation_by a ''z'') (vscale drive_amp (Vec3 1 0 0))) = drive_field a drive_amp"
  unfolding drive_field_def matvec_vscale ..

lemma both_driven_singular:
  assumes "det3 (round_trip (lab_frame mol_angle alpha0_diag) (G K drive_hbar_w d_col n_b)
             (lab_frame plas_angle alpha1_diag)) = 0"
  shows "coupled_dip_mags_both_driven K mol_angle plas_angle d_col E_d_angle drive_hbar_w
           alpha0_diag alpha1_diag n_b drive_amp ret = Inl LinAlgError"
  using assms
  by (simp add: coupled_dip_mags_both_driven_def both_driven_from_G_def Let_def lab_frame_def
      round_trip_def linalg_inv_def)




section \<open>The emitter-driven solver\<close>

text \<open>
  Claim C2, as the code has it.  For scalar angles and an invertible \<open>X\<close>,
  \<^verbatim>\<open>dipole_mags_gened\<close> returns \<open>p0 = M \<alpha>\<^sub>0 E\<close> and \<open>p1 = \<alpha>\<^sub>1 G p0\<close>, with the same
  \<open>\<alpha>\<^sub>0\<close>, \<open>\<alpha>\<^sub>1\<close>, \<open>G\<close>, \<open>E\<close> and \<open>M\<close> as \<^verbatim>\<open>coupled_dip_mags_both_driven\<close>.  This is the
  solution in which the field drives the emitter only, \<open>p0 = \<alpha>\<^sub>0 (E + G p1)\<close> with
  \<open>p1 = \<alpha>\<^sub>1 G p0\<close>; the first moment of \<^verbatim>\<open>coupled_dip_mags_both_driven\<close> is this \<open>p0\<close>
  plus \<open>M \<alpha>\<^sub>0 G \<alpha>\<^sub>1 E\<close>, and its second moment is \<open>M \<alpha>\<^sub>1 (I + G \<alpha>\<^sub>0) E\<close>.
\<close>

theorem dipole_mags_gened_emitter_driven:
  assumes sep: "0 < vec_mag d_col"
    and invertible: "linalg_inv (round_trip (lab_frame mol_angle alpha0_diag)
             (G K drive_hbar_w d_col n_b) (lab_frame plas_angle alpha1_diag)) = Inr M"
  shows "let \<alpha>0 = lab_frame mol_angle alpha0_diag;
             \<alpha>1 = lab_frame plas_angle alpha1_diag;
             G_d = G K drive_hbar_w d_col n_b;
             E = drive_field (case E_d_angle of None \<Rightarrow> mol_angle | Some a \<Rightarrow> a) drive_amp;
             p0 = matvec (matmul M \<alpha>0) E;
             p1 = matvec (matmul \<alpha>1 G_d) p0
         in dipole_mags_gened K (Scalar mol_angle) plas_angle d_col
              (map_option Scalar E_d_angle) drive_hbar_w alpha0_diag alpha1_diag n_b drive_amp
              = Inr (p0, p1)
          \<and> p0 = matvec \<alpha>0 (vadd E (matvec G_d p1))
          \<and> map_sum id fst (coupled_dip_mags_both_driven K mol_angle plas_angle d_col E_d_angle
               drive_hbar_w alpha0_diag alpha1_diag n_b drive_amp False)
              = Inr (vadd p0 (matvec (matmul M (matmul \<alpha>0 (matmul G_d \<alpha>1))) E),
                     matvec (matmul M (matmul \<alpha>1 (madd identity3 (matmul G_d \<alpha>0)))) E)"
proof -
  define \<alpha>0 where "\<alpha>0 = lab_frame mol_angle alpha0_diag"
  define \<alpha>1 where "\<alpha>1 = lab_frame plas_angle alpha1_diag"
  define G_d where "G_d = G K drive_hbar_w d_col n_b"
  define E where
    "E = drive_field (case E_d_angle of None \<Rightarrow> mol_angle | Some a \<Rightarrow> a) drive_amp"
  define p0 where "p0 = matvec (matmul M \<alpha>0) E"
  define p1 where "p1 = matvec (matmul \<alpha>1 G_d) p0"
  from invertible have inv: "linalg_inv (round_trip \<alpha>0 G_d \<alpha>1) = Inr M"
    by (simp add: \<alpha>0_def \<alpha>1_def G_d_def)
  have rm: "rotate_molecule (Scalar mol_angle) alpha0_diag (map_option Scalar E_d_angle)
      drive_amp = Inr (\<alpha>0, E)"
    by (cases E_d_angle)
       (simp_all add: rotate_molecule_def E_d_angle_or_default_def \<alpha>0_def E_def lab_frame_def
          rotated_drive del: vscale.simps)
  have r: "dipole_mags_gened K (Scalar mol_angle) plas_angle d_col
              (map_option Scalar E_d_angle) drive_hbar_w alpha0_diag alpha1_diag n_b drive_amp
              = Inr (p0, p1)"
    using inv
    by (simp add: dipole_mags_gened_def rm Let_def p0_def p1_def G_d_def \<alpha>1_def lab_frame_def
        round_trip_def)
  have "matvec (round_trip \<alpha>0 G_d \<alpha>1) p0 = matvec \<alpha>0 E"
    unfolding p0_def by (rule solve_with_inverse [OF inv])
  then have f: "p0 = matvec \<alpha>0 (vadd E (matvec G_d p1))"
    by (simp add: round_trip_def matvec_msub vsub_eq_vadd matvec_matmul matvec_vadd p1_def)
  have b: "map_sum id fst (coupled_dip_mags_both_driven K mol_angle plas_angle d_col E_d_angle
               drive_hbar_w alpha0_diag alpha1_diag n_b drive_amp False)
              = Inr (vadd p0 (matvec (matmul M (matmul \<alpha>0 (matmul G_d \<alpha>1))) E),
                     matvec (matmul M (matmul \<alpha>1 (madd identity3 (matmul G_d \<alpha>0)))) E)"
    unfolding coupled_dip_mags_both_driven_def
    using both_driven_from_G_Inr [OF invertible, of E_d_angle drive_amp]
    by (simp add: Let_def \<alpha>0_def \<alpha>1_def G_d_def E_def p0_def matmul_madd matvec_madd
        flip: matmul_assoc)
  from r f b show ?thesis
    unfolding Let_def \<alpha>0_def \<alpha>1_def G_d_def E_def p0_def p1_def by blast
qed

theorem dipole_mags_gened_emitter_driven_witness:
  "0 < vec_mag (Vec3 1 0 0)
   \<and> linalg_inv (round_trip (lab_frame 0 (Mat3 1 0 0  0 0 0  0 0 0))
       (G cgs_constants 0 (Vec3 1 0 0) 1) (lab_frame 0 identity3))
     = Inr (Mat3 (- 1 / 3) 0 0  0 1 0  0 0 1)
   \<and> dipole_mags_gened cgs_constants (Scalar 0) 0 (Vec3 1 0 0) None 0
        (Mat3 1 0 0  0 0 0  0 0 0) identity3 1 1
     = Inr (Vec3 (- 1 / 3) 0 0, Vec3 (- 2 / 3) 0 0)"
proof -
  have h: "linalg_inv (round_trip (lab_frame 0 (Mat3 1 0 0  0 0 0  0 0 0))
       (G cgs_constants 0 (Vec3 1 0 0) 1) (lab_frame 0 identity3))
     = Inr (Mat3 (- 1 / 3) 0 0  0 1 0  0 0 1)"
    by (simp add: G_static_x round_trip_def identity3_def linalg_inv_def)
  have d: "0 < vec_mag (Vec3 1 0 0)" by (simp add: vec_mag_def)
  show ?thesis
    using d h dipole_mags_gened_emitter_driven [OF d h, of None 1]
    by (simp add: G_static_x identity3_def Let_def)
qed

text \<open>
  The two entry points differ on a common input: an emitter with \<open>\<alpha>\<^sub>x\<^sub>x = 1\<close> and an
  isotropic particle with polarizability \<open>1\<close> at the separation \<open>(1, 0, 0)\<close> in a static
  unit field along \<open>x\<close>.
\<close>

theorem dipole_mags_gened_differs_counterexample:
  "dipole_mags_gened cgs_constants (Scalar 0) 0 (Vec3 1 0 0) None 0
        (Mat3 1 0 0  0 0 0  0 0 0) identity3 1 1
     = Inr (Vec3 (- 1 / 3) 0 0, Vec3 (- 2 / 3) 0 0)
   \<and> coupled_dip_mags_both_driven cgs_constants 0 0 (Vec3 1 0 0) None 0
        (Mat3 1 0 0  0 0 0  0 0 0) identity3 1 1 False
     = Inr ((Vec3 (- 1) 0 0, Vec3 (- 1) 0 0), None)
   \<and> dipole_mags_gened cgs_constants (Scalar 0) 0 (Vec3 1 0 0) None 0
        (Mat3 1 0 0  0 0 0  0 0 0) identity3 1 1
     \<noteq> map_sum id fst
         (coupled_dip_mags_both_driven cgs_constants 0 0 (Vec3 1 0 0) None 0
            (Mat3 1 0 0  0 0 0  0 0 0) identity3 1 1 False)"
  by (simp add: dipole_mags_gened_def rotate_molecule_def E_d_angle_or_default_def
      coupled_dip_mags_both_driven_def both_driven_from_G_def G_static_x
      identity3_def linalg_inv_def Let_def cvec_def)

section \<open>The depolarization factors of the ellipsoid\<close>

text \<open>
  The trapezoidal sums are not evaluated.  The sum of the three integrands is the
  derivative of \<open>- 2 / sqrt ((a\<^sup>2 + q) (b\<^sup>2 + q) (c\<^sup>2 + q))\<close> and decreases in \<open>q\<close>, so on
  a uniform grid the trapezoidal sum differs from the difference of that antiderivative
  by at most half a step times the drop of the integrand.
\<close>

lemma trapz_add:
  "trapz (map f xs) xs + trapz (map g xs) xs = trapz (map (\<lambda>x. f x + g x) xs) xs"
proof (induction xs rule: induct_list012)
  case (3 x y zs)
  have "(y - x) * (f y + f x) / 2 + (y - x) * (g y + g x) / 2
      = (y - x) * (f y + g y + (f x + g x)) / 2"
    by (simp add: field_simps)
  with 3(2) show ?case by simp
qed simp_all

lemma trapz_grid_bounds:
  fixes g F :: "real \<Rightarrow> real"
  assumes h: "0 \<le> h"
    and sandwich: "\<And>x y. 0 \<le> x \<Longrightarrow> x \<le> y \<Longrightarrow>
            (y - x) * g y \<le> F y - F x \<and> F y - F x \<le> (y - x) * g x"
    and anti: "\<And>x y. 0 \<le> x \<Longrightarrow> x \<le> y \<Longrightarrow> g y \<le> g x"
    and mn: "m < n"
  shows "\<bar>trapz (map g (map (\<lambda>i. real i * h) [m..<n])) (map (\<lambda>i. real i * h) [m..<n])
           - (F (real (n - 1) * h) - F (real m * h))\<bar>
         \<le> h / 2 * (g (real m * h) - g (real (n - 1) * h))"
  using mn
proof (induction "n - m" arbitrary: m)
  case 0
  then show ?case by simp
next
  case (Suc k)
  show ?case
  proof (cases "Suc m < n")
    case False
    with Suc.prems have n: "n = Suc m" by simp
    show ?thesis by (simp add: n)
  next
    case True
    let ?x = "\<lambda>i. real i * h"
    let ?xs = "map ?x [Suc m..<n]"
    have k: "k = n - Suc m" using Suc.hyps(2) by simp
    have IH: "\<bar>trapz (map g ?xs) ?xs - (F (?x (n - 1)) - F (?x (Suc m)))\<bar>
         \<le> h / 2 * (g (?x (Suc m)) - g (?x (n - 1)))"
      by (rule Suc.hyps(1) [OF k True])
    have split: "[m..<n] = m # Suc m # [Suc (Suc m)..<n]"
      using True Suc.prems by (simp add: upt_conv_Cons)
    have split': "[Suc m..<n] = Suc m # [Suc (Suc m)..<n]"
      using True by (simp add: upt_conv_Cons)
    have x0: "0 \<le> ?x m" and x01: "?x m \<le> ?x (Suc m)" and d: "?x (Suc m) - ?x m = h"
      using h by (simp_all add: algebra_simps)
    have t: "trapz (map g (map ?x [m..<n])) (map ?x [m..<n])
        = h * (g (?x (Suc m)) + g (?x m)) / 2 + trapz (map g ?xs) ?xs"
      unfolding split using d by (simp add: split' algebra_simps)
    from sandwich [OF x0 x01] have s: "h * g (?x (Suc m)) \<le> F (?x (Suc m)) - F (?x m)"
      "F (?x (Suc m)) - F (?x m) \<le> h * g (?x m)"
      unfolding d by simp_all
    have aux: "\<bar>(B + A) / 2 - D\<bar> \<le> (A - B) / 2" if "B \<le> D" "D \<le> A" for A B D :: real
      using that by (simp add: abs_le_iff field_simps)
    have e1: "h * (g (?x (Suc m)) + g (?x m)) / 2 = (h * g (?x (Suc m)) + h * g (?x m)) / 2"
      by (simp add: distrib_left)
    have e2: "h / 2 * (g (?x m) - g (?x (Suc m))) = (h * g (?x m) - h * g (?x (Suc m))) / 2"
      by (simp add: right_diff_distrib)
    have step: "\<bar>h * (g (?x (Suc m)) + g (?x m)) / 2 - (F (?x (Suc m)) - F (?x m))\<bar>
        \<le> h / 2 * (g (?x m) - g (?x (Suc m)))"
      unfolding e1 e2 by (rule aux [OF s])
    have comb: "\<bar>(s1 + s2) - (F2 - F0)\<bar> \<le> c * (g0 - g2)"
      if "\<bar>s1 - (F1 - F0)\<bar> \<le> c * (g0 - g1)" "\<bar>s2 - (F2 - F1)\<bar> \<le> c * (g1 - g2)"
      for s1 s2 F0 F1 F2 c g0 g1 g2 :: real
      using that by (simp add: abs_le_iff right_diff_distrib)
    show ?thesis unfolding t by (rule comb [OF step IH])
  qed
qed

lemma integrand_sum_deriv:
  fixes a b c q :: real
  assumes "0 < a" "0 < b" "0 < c" "0 \<le> q"
  shows "((\<lambda>q. - 2 / sqrt ((a\<^sup>2 + q) * (b\<^sup>2 + q) * (c\<^sup>2 + q))) has_real_derivative
          (ellipsoid_integrand a b c q + ellipsoid_integrand b c a q
             + ellipsoid_integrand c a b q)) (at q)"
proof -
  define A B C where "A = a\<^sup>2 + q" and "B = b\<^sup>2 + q" and "C = c\<^sup>2 + q"
  have pos: "0 < A" "0 < B" "0 < C"
    using assms by (simp_all add: A_def B_def C_def add_pos_nonneg)
  define P where "P = (\<lambda>x. (a\<^sup>2 + x) * (b\<^sup>2 + x) * (c\<^sup>2 + x))"
  have Pq: "P q = A * B * C" by (simp add: P_def A_def B_def C_def)
  define s where "s = sqrt (A * B * C)"
  have s: "0 < s" and s2: "s * s = A * B * C"
    using pos by (simp_all add: s_def)
  have perm: "sqrt (B * C * A) = s" "sqrt (C * A * B) = s"
    by (simp_all add: s_def mult.commute mult.left_commute)
  have d1: "(P has_real_derivative (B * C + A * C + A * B)) (at q)"
    unfolding P_def A_def B_def C_def
    by (auto intro!: derivative_eq_intros simp: algebra_simps)
  have d2: "(sqrt has_real_derivative inverse s / 2) (at (P q))"
    unfolding s_def Pq using pos by (intro DERIV_real_sqrt) simp
  have d3: "((\<lambda>x. sqrt (P x)) has_real_derivative inverse s / 2 * (B * C + A * C + A * B)) (at q)"
    by (rule DERIV_chain' [OF d1 d2])
  have d4: "((\<lambda>x. inverse (sqrt (P x))) has_real_derivative
      - (inverse s * (inverse s / 2 * (B * C + A * C + A * B)) * inverse s)) (at q)"
  proof -
    have "sqrt (P q) \<noteq> 0" using pos by (simp add: Pq)
    from DERIV_inverse' [OF d3 this] show ?thesis by (simp only: Pq flip: s_def)
  qed
  have d5: "((\<lambda>x. - 2 * inverse (sqrt (P x))) has_real_derivative
      - 2 * - (inverse s * (inverse s / 2 * (B * C + A * C + A * B)) * inverse s)) (at q)"
    by (rule DERIV_cmult [OF d4])
  have v: "- 2 * - (inverse s * (inverse s / 2 * (B * C + A * C + A * B)) * inverse s)
      = 1 / (A * s) + 1 / (B * s) + 1 / (C * s)"
  proof -
    have "1 / (A * s) + 1 / (B * s) + 1 / (C * s) = (B * C + A * C + A * B) / (A * B * C * s)"
      using pos s by (simp add: field_simps)
    also have "\<dots> = (B * C + A * C + A * B) / (s * s * s)" by (simp only: s2)
    also have "\<dots> = - 2 * - (inverse s * (inverse s / 2 * (B * C + A * C + A * B)) * inverse s)"
      using s by (simp add: field_simps)
    finally show ?thesis by simp
  qed
  have f: "(\<lambda>x. - 2 * inverse (sqrt (P x))) =
      (\<lambda>q. - 2 / sqrt ((a\<^sup>2 + q) * (b\<^sup>2 + q) * (c\<^sup>2 + q)))"
    by (simp add: P_def divide_inverse)
  have g: "ellipsoid_integrand a b c q + ellipsoid_integrand b c a q
             + ellipsoid_integrand c a b q = 1 / (A * s) + 1 / (B * s) + 1 / (C * s)"
    by (simp add: ellipsoid_integrand_def Let_def perm flip: A_def B_def C_def s_def)
  from d5 show ?thesis unfolding v f g .
qed

lemma ellipsoid_integrand_antimono:
  fixes a b c x y :: real
  assumes "0 < a" "0 < b" "0 < c" "0 \<le> x" "x \<le> y"
  shows "ellipsoid_integrand a b c y \<le> ellipsoid_integrand a b c x"
proof -
  have px: "0 < a\<^sup>2 + x" "0 < b\<^sup>2 + x" "0 < c\<^sup>2 + x"
    using assms by (simp_all add: add_pos_nonneg)
  have m: "(a\<^sup>2 + x) * (b\<^sup>2 + x) * (c\<^sup>2 + x) \<le> (a\<^sup>2 + y) * (b\<^sup>2 + y) * (c\<^sup>2 + y)"
    using assms px by (intro mult_mono) simp_all
  have "(a\<^sup>2 + x) * sqrt ((a\<^sup>2 + x) * (b\<^sup>2 + x) * (c\<^sup>2 + x))
      \<le> (a\<^sup>2 + y) * sqrt ((a\<^sup>2 + y) * (b\<^sup>2 + y) * (c\<^sup>2 + y))"
    using assms px m by (intro mult_mono) simp_all
  moreover have "0 < (a\<^sup>2 + x) * sqrt ((a\<^sup>2 + x) * (b\<^sup>2 + x) * (c\<^sup>2 + x))"
    using px by simp
  ultimately show ?thesis
    unfolding ellipsoid_integrand_def Let_def by (intro divide_left_mono) simp_all
qed

lemma integrand_sum_sandwich:
  fixes a b c x y :: real
  assumes abc: "0 < a" "0 < b" "0 < c" and xy: "0 \<le> x" "x \<le> y"
  defines "g \<equiv> \<lambda>q. ellipsoid_integrand a b c q + ellipsoid_integrand b c a q
             + ellipsoid_integrand c a b q"
  defines "F \<equiv> \<lambda>q. - 2 / sqrt ((a\<^sup>2 + q) * (b\<^sup>2 + q) * (c\<^sup>2 + q))"
  shows "(y - x) * g y \<le> F y - F x \<and> F y - F x \<le> (y - x) * g x"
proof (cases "x = y")
  case True
  then show ?thesis by simp
next
  case False
  with xy have lt: "x < y" by simp
  have "\<exists>z. x < z \<and> z < y \<and> F y - F x = (y - x) * g z"
  proof (rule MVT2 [OF lt])
    fix z assume "x \<le> z" "z \<le> y"
    with xy have "0 \<le> z" by simp
    from integrand_sum_deriv [OF abc this] show "DERIV F z :> g z"
      by (simp add: F_def g_def)
  qed
  then obtain z where z: "x < z" "z < y" "F y - F x = (y - x) * g z" by blast
  have anti: "g v \<le> g u" if "0 \<le> u" "u \<le> v" for u v
    unfolding g_def
    using ellipsoid_integrand_antimono [OF abc that]
      ellipsoid_integrand_antimono [OF abc(2,3,1) that]
      ellipsoid_integrand_antimono [OF abc(3,1,2) that]
    by simp
  have "g y \<le> g z" "g z \<le> g x" using anti [of z y] anti [of x z] z xy by simp_all
  then show ?thesis using lt unfolding z(3) by (simp add: mult_left_mono)
qed

lemma integrand_sum_antimono:
  fixes a b c x y :: real
  assumes abc: "0 < a" "0 < b" "0 < c" and xy: "0 \<le> x" "x \<le> y"
  shows "ellipsoid_integrand a b c y + ellipsoid_integrand b c a y
             + ellipsoid_integrand c a b y
     \<le> ellipsoid_integrand a b c x + ellipsoid_integrand b c a x
             + ellipsoid_integrand c a b x"
  using ellipsoid_integrand_antimono [OF abc xy]
      ellipsoid_integrand_antimono [OF abc(2,3,1) xy]
      ellipsoid_integrand_antimono [OF abc(3,1,2) xy]
  by simp

lemma ellipsoid_integrand_nonneg:
  fixes a b c q :: real
  assumes "0 \<le> q"
  shows "0 \<le> ellipsoid_integrand a b c q"
  using assms by (simp add: ellipsoid_integrand_def Let_def)

lemma depolarization_sum_grid:
  fixes a b c h :: real
  assumes abc: "0 < a" "0 < b" "0 < c" and h: "0 \<le> h" and n: "0 < n"
  defines "xs \<equiv> map (\<lambda>i. real i * h) [0..<n]"
  defines "Q \<equiv> real (n - 1) * h"
  shows "\<bar>(a * b * c / 2) * trapz (map (ellipsoid_integrand a b c) xs) xs
          + (b * c * a / 2) * trapz (map (ellipsoid_integrand b c a) xs) xs
          + (c * a * b / 2) * trapz (map (ellipsoid_integrand c a b) xs) xs
          - (1 - a * b * c / sqrt ((a\<^sup>2 + Q) * (b\<^sup>2 + Q) * (c\<^sup>2 + Q)))\<bar>
         \<le> h / 4 * (1 / a\<^sup>2 + 1 / b\<^sup>2 + 1 / c\<^sup>2)"
proof -
  define g where "g = (\<lambda>q. ellipsoid_integrand a b c q + ellipsoid_integrand b c a q
             + ellipsoid_integrand c a b q)"
  define F where "F = (\<lambda>q. - 2 / sqrt ((a\<^sup>2 + q) * (b\<^sup>2 + q) * (c\<^sup>2 + q)))"
  define T where "T = trapz (map g xs) xs"
  define v where "v = a * b * c"
  have v: "0 < v" using abc by (simp add: v_def)
  have Q: "0 \<le> Q" using h by (simp add: Q_def)
  have T: "trapz (map (ellipsoid_integrand a b c) xs) xs
          + trapz (map (ellipsoid_integrand b c a) xs) xs
          + trapz (map (ellipsoid_integrand c a b) xs) xs = T"
    unfolding T_def g_def by (simp only: trapz_add)
  have bound: "\<bar>T - (F Q - F 0)\<bar> \<le> h / 2 * (g 0 - g Q)"
    using trapz_grid_bounds [of h g F 0 n, OF h _ _ n]
      integrand_sum_sandwich [OF abc] integrand_sum_antimono [OF abc]
    unfolding T_def xs_def Q_def g_def F_def by simp
  have gQ: "0 \<le> g Q"
    unfolding g_def using ellipsoid_integrand_nonneg [OF Q] by (simp add: add_nonneg_nonneg)
  have sq: "sqrt (a\<^sup>2 * b\<^sup>2 * c\<^sup>2) = v"
    using abc by (simp add: v_def real_sqrt_mult)
  have sq': "sqrt (b\<^sup>2 * c\<^sup>2 * a\<^sup>2) = v" "sqrt (c\<^sup>2 * a\<^sup>2 * b\<^sup>2) = v"
    using sq by (simp_all add: mult.commute mult.left_commute)
  have F0: "F 0 = - 2 / v" unfolding F_def by (simp only: add.right_neutral sq)
  have i0: "ellipsoid_integrand a b c 0 = 1 / (a\<^sup>2 * v)"
    "ellipsoid_integrand b c a 0 = 1 / (b\<^sup>2 * v)"
    "ellipsoid_integrand c a b 0 = 1 / (c\<^sup>2 * v)"
    unfolding ellipsoid_integrand_def Let_def by (simp_all only: add.right_neutral sq sq')
  have g0: "g 0 = (1 / a\<^sup>2 + 1 / b\<^sup>2 + 1 / c\<^sup>2) / v"
    unfolding g_def i0 by (simp add: add_divide_distrib)
  have FQ: "v / 2 * (F Q - F 0) = 1 - v / sqrt ((a\<^sup>2 + Q) * (b\<^sup>2 + Q) * (c\<^sup>2 + Q))"
  proof -
    have "F Q = - 2 / sqrt ((a\<^sup>2 + Q) * (b\<^sup>2 + Q) * (c\<^sup>2 + Q))" by (simp add: F_def)
    then show ?thesis using v by (simp only: F0) (simp add: field_simps)
  qed
  have "\<bar>v / 2 * T - v / 2 * (F Q - F 0)\<bar> = v / 2 * \<bar>T - (F Q - F 0)\<bar>"
  proof -
    have "v / 2 * T - v / 2 * (F Q - F 0) = v / 2 * (T - (F Q - F 0))"
      by (simp only: right_diff_distrib)
    then show ?thesis using v by (simp only: abs_mult)
  qed
  also have "\<dots> \<le> v / 2 * (h / 2 * (g 0 - g Q))"
    using bound v by (intro mult_left_mono) simp_all
  also have "\<dots> \<le> v / 2 * (h / 2 * g 0)"
    using gQ v h by (intro mult_left_mono) simp_all
  also have "\<dots> = h / 4 * (1 / a\<^sup>2 + 1 / b\<^sup>2 + 1 / c\<^sup>2)"
    using v by (simp add: g0)
  finally have fin: "\<bar>v / 2 * T - (1 - v / sqrt ((a\<^sup>2 + Q) * (b\<^sup>2 + Q) * (c\<^sup>2 + Q)))\<bar>
      \<le> h / 4 * (1 / a\<^sup>2 + 1 / b\<^sup>2 + 1 / c\<^sup>2)"
    unfolding FQ .
  have e: "(a * b * c / 2) * trapz (map (ellipsoid_integrand a b c) xs) xs
          + (b * c * a / 2) * trapz (map (ellipsoid_integrand b c a) xs) xs
          + (c * a * b / 2) * trapz (map (ellipsoid_integrand c a b) xs) xs = a * b * c / 2 * T"
    unfolding T [symmetric] by (simp add: algebra_simps)
  from fin show ?thesis unfolding e v_def .
qed

lemma ellipsoid_q_grid:
  "ellipsoid_q K = map (\<lambda>i. real i * (10000 / 99999 * (pc_nm K)\<^sup>2)) [0..<100000]"
  by (simp add: ellipsoid_q_def linspace_def comp_def)

lemma ellipsoid_L_i_grid:
  "ellipsoid_L_i K a b c =
     (a * b * c / 2) * trapz (map (ellipsoid_integrand a b c) (ellipsoid_q K)) (ellipsoid_q K)"
  by (simp add: ellipsoid_L_i_def Let_def)

text \<open>
  Claim C8.  For the semi-axes 44 nm, 20 nm and 20 nm (in the length unit of the
  constants table, which must be positive) the three depolarization factors that
  \<^verbatim>\<open>sparse_ellipsoid_polarizability\<close> computes with \<^verbatim>\<open>L_i\<close>, for the three cyclic orders of
  the axes, sum to a value within 0.02 of 1.
\<close>

theorem depolarization_factors_sum:
  assumes nm: "0 < pc_nm K"
  shows "\<bar>ellipsoid_L_i K (44 * pc_nm K) (20 * pc_nm K) (20 * pc_nm K)
          + ellipsoid_L_i K (20 * pc_nm K) (20 * pc_nm K) (44 * pc_nm K)
          + ellipsoid_L_i K (20 * pc_nm K) (44 * pc_nm K) (20 * pc_nm K) - 1\<bar> \<le> 2 / 100"
proof -
  define u where "u = pc_nm K"
  define h where "h = 10000 / 99999 * u\<^sup>2"
  define S where "S = ellipsoid_L_i K (44 * u) (20 * u) (20 * u)
          + ellipsoid_L_i K (20 * u) (20 * u) (44 * u)
          + ellipsoid_L_i K (20 * u) (44 * u) (20 * u)"
  define Q where "Q = real (100000 - 1) * h"
  define R where "R = 44 * u * (20 * u) * (20 * u)
     / sqrt (((44 * u)\<^sup>2 + Q) * ((20 * u)\<^sup>2 + Q) * ((20 * u)\<^sup>2 + Q))"
  have u: "0 < u" using nm by (simp add: u_def)
  have h: "0 \<le> h" by (simp add: h_def)
  have q: "ellipsoid_q K = map (\<lambda>i. real i * h) [0..<100000]"
    unfolding h_def u_def by (rule ellipsoid_q_grid)
  have main: "\<bar>S - (1 - R)\<bar> \<le> h / 4 * (1 / (44 * u)\<^sup>2 + 1 / (20 * u)\<^sup>2 + 1 / (20 * u)\<^sup>2)"
    unfolding S_def R_def Q_def ellipsoid_L_i_grid q
    using depolarization_sum_grid [of "44 * u" "20 * u" "20 * u" h 100000] u h
    by simp
  have Qv: "Q = 10000 * u\<^sup>2" by (simp add: Q_def h_def)
  have err: "h / 4 * (1 / (44 * u)\<^sup>2 + 1 / (20 * u)\<^sup>2 + 1 / (20 * u)\<^sup>2) \<le> 2 / 10000"
  proof -
    have "h / 4 * (1 / (44 * u)\<^sup>2 + 1 / (20 * u)\<^sup>2 + 1 / (20 * u)\<^sup>2)
        = 2500 / 99999 * (1 / 1936 + 1 / 400 + 1 / 400)"
      using u by (simp add: h_def power_mult_distrib field_simps)
    also have "\<dots> \<le> 2 / 10000" by simp
    finally show ?thesis .
  qed
  have u3: "0 < u ^ 3" using u by simp
  have den: "((44 * u)\<^sup>2 + Q) * ((20 * u)\<^sup>2 + Q) * ((20 * u)\<^sup>2 + Q)
      = 11936 * 10400 * 10400 * (u ^ 3)\<^sup>2"
    unfolding Qv by (simp add: power2_eq_square power3_eq_cube algebra_simps)
  have lower: "109 * 10400 * u ^ 3 \<le> sqrt (11936 * 10400 * 10400 * (u ^ 3)\<^sup>2)"
  proof (rule real_le_rsqrt)
    have "(109 * 10400 * u ^ 3)\<^sup>2 = 11881 * 10400 * 10400 * (u ^ 3)\<^sup>2"
      by (simp add: power2_eq_square)
    also have "\<dots> \<le> 11936 * 10400 * 10400 * (u ^ 3)\<^sup>2"
      by (intro mult_right_mono) simp_all
    finally show "(109 * 10400 * u ^ 3)\<^sup>2 \<le> 11936 * 10400 * 10400 * (u ^ 3)\<^sup>2" .
  qed
  have num: "44 * u * (20 * u) * (20 * u) = 17600 * u ^ 3"
    by (simp add: power3_eq_cube)
  have R0: "0 \<le> R" unfolding R_def den num using u3 by simp
  have "R \<le> 17600 * u ^ 3 / (109 * 10400 * u ^ 3)"
    unfolding R_def den num using lower u3 by (intro divide_left_mono) simp_all
  also have "\<dots> = 17600 / (109 * 10400)" using u3 by simp
  also have "\<dots> \<le> 156 / 10000" by simp
  finally have R1: "R \<le> 156 / 10000" .
  from main err have "\<bar>S - (1 - R)\<bar> \<le> 2 / 10000" by linarith
  with R0 R1 have "\<bar>S - 1\<bar> \<le> 2 / 100" by linarith
  then show ?thesis unfolding S_def u_def .
qed

theorem depolarization_factors_sum_witness:
  "0 < pc_nm cgs_constants \<and>
   \<bar>ellipsoid_L_i cgs_constants (44 * pc_nm cgs_constants) (20 * pc_nm cgs_constants) (20 * pc_nm cgs_constants)
      + ellipsoid_L_i cgs_constants (20 * pc_nm cgs_constants) (20 * pc_nm cgs_constants) (44 * pc_nm cgs_constants)
      + ellipsoid_L_i cgs_constants (20 * pc_nm cgs_constants) (44 * pc_nm cgs_constants) (20 * pc_nm cgs_constants) - 1\<bar> \<le> 2 / 100"
proof -
  have h: "0 < pc_nm cgs_constants" by (simp add: cgs_constants_def)
  from h depolarization_factors_sum [OF h] show ?thesis by (rule conjI)
qed

end
